theory Spec2Isabelle
  imports Complex_Main
begin

text \<open>
  The Kokoro TTS API server (\<open>kokoro_tts_api.py\<close>): a Flask application that validates a
  JSON request, runs the \<open>kokoro\<close> command-line tool on it and returns the audio file the
  tool wrote. The functions below follow the source function by function and keep its
  names; what the program reads from or does to its surroundings is passed in and out as
  a \<open>world\<close>.
\<close>

section \<open>Python values\<close>

text \<open>
  A Python \<open>str\<close> is a sequence of Unicode code points: \<open>len\<close> counts code points and
  \<open>==\<close> compares them one by one. A string is therefore a list of code points, and an
  ASCII literal of the source is written \<open>ascii ''...''\<close>.
\<close>

type_synonym pystr = "nat list"

definition ascii :: "string \<Rightarrow> pystr" where
  "ascii cs = map of_char cs"

text \<open>
  \<open>str.isspace\<close> for one code point: the characters of general category Zs or of
  bidirectional class WS, B or S.
\<close>

definition isspace :: "nat \<Rightarrow> bool" where
  "isspace c \<longleftrightarrow>
     (9 \<le> c \<and> c \<le> 13) \<or> (28 \<le> c \<and> c \<le> 32) \<or> c = 133 \<or> c = 160 \<or> c = 5760 \<or>
     (8192 \<le> c \<and> c \<le> 8202) \<or> c = 8232 \<or> c = 8233 \<or> c = 8239 \<or> c = 8287 \<or> c = 12288"

text \<open>\<open>s.strip()\<close>: whitespace is removed from both ends, never from the middle.\<close>

definition strip :: "pystr \<Rightarrow> pystr" where
  "strip s = rev (dropWhile isspace (rev (dropWhile isspace s)))"

text \<open>
  \<open>s.lower()\<close>, code point by code point. The mapping is written out for Basic Latin and
  Latin-1, and for the two code points beyond them whose lower case contains an ASCII
  letter (U+0130 and U+212A); every other code point is left as it is, which does not
  change whether the result equals an ASCII literal.
\<close>

definition lower_cp :: "nat \<Rightarrow> pystr" where
  "lower_cp c =
     (if 65 \<le> c \<and> c \<le> 90 then [c + 32]
      else if 192 \<le> c \<and> c \<le> 222 \<and> c \<noteq> 215 then [c + 32]
      else if c = 304 then [105, 775]
      else if c = 8490 then [107]
      else [c])"

definition lower :: "pystr \<Rightarrow> pystr" where
  "lower s = concat (map lower_cp s)"

text \<open>\<open>str(n)\<close> for a natural number and \<open>sep.join(xs)\<close>.\<close>

fun str_nat :: "nat \<Rightarrow> pystr" where
  "str_nat n = (if n < 10 then [48 + n] else str_nat (n div 10) @ [48 + n mod 10])"

fun join :: "pystr \<Rightarrow> pystr list \<Rightarrow> pystr" where
  "join sep [] = []"
| "join sep [x] = x"
| "join sep (x # y # ys) = x @ sep @ join sep (y # ys)"

text \<open>
  The value \<open>request.get_json()\<close> hands to the handlers: any JSON document. An object is
  a list of bindings read by \<open>map_of\<close>; a float is represented by its value.
\<close>

datatype json =
    JNull
  | JBool bool
  | JInt int
  | JFloat real
  | JStr pystr
  | JList "json list"
  | JDict "(pystr \<times> json) list"

text \<open>Truth value testing, as in \<open>if not data\<close> and \<open>if format_param and ...\<close>.\<close>

fun truthy :: "json \<Rightarrow> bool" where
  "truthy JNull = False"
| "truthy (JBool b) = b"
| "truthy (JInt i) = (i \<noteq> 0)"
| "truthy (JFloat r) = (r \<noteq> 0)"
| "truthy (JStr s) = (s \<noteq> [])"
| "truthy (JList xs) = (xs \<noteq> [])"
| "truthy (JDict kvs) = (kvs \<noteq> [])"

text \<open>
  The exceptions the program meets; all of them are subclasses of \<open>Exception\<close>.
  \<open>BadRequest\<close> carries its description.
\<close>

datatype py_exception =
    BadRequest pystr
  | AttributeError
  | TimeoutExpired
  | OSError
  | UnicodeDecodeError
  | OtherException

definition and_then :: "'e + 'a \<Rightarrow> ('a \<Rightarrow> 'e + 'b) \<Rightarrow> 'e + 'b" where
  "and_then r f = (case r of Inl e \<Rightarrow> Inl e | Inr x \<Rightarrow> f x)"

text \<open>
  Attribute access on a JSON value: only a \<open>dict\<close> has \<open>get\<close>, only a \<open>str\<close> has
  \<open>strip\<close> and \<open>lower\<close>; on any other value the call raises \<open>AttributeError\<close>.
\<close>

fun py_get :: "json \<Rightarrow> pystr \<Rightarrow> json \<Rightarrow> py_exception + json" where
  "py_get (JDict kvs) k d = Inr (case map_of kvs k of None \<Rightarrow> d | Some v \<Rightarrow> v)"
| "py_get _ k d = Inl AttributeError"

fun py_strip :: "json \<Rightarrow> py_exception + pystr" where
  "py_strip (JStr s) = Inr (strip s)"
| "py_strip _ = Inl AttributeError"

fun py_lower :: "json \<Rightarrow> py_exception + pystr" where
  "py_lower (JStr s) = Inr (lower s)"
| "py_lower _ = Inl AttributeError"

section \<open>Configuration\<close>

definition MAX_TEXT_LENGTH :: nat where
  "MAX_TEXT_LENGTH = 10000"

definition ALLOWED_VOICES :: "pystr list" where
  "ALLOWED_VOICES = map ascii
     [''af_alloy'', ''af_aoede'', ''af_bella'', ''af_heart'', ''af_jessica'', ''af_kore'',
      ''af_nicole'', ''af_nova'', ''af_river'', ''af_sarah'', ''af_sky'', ''am_adam'',
      ''am_michael'', ''bf_alice'', ''bf_emma'', ''bf_isabella'', ''bf_lily'',
      ''bm_george'', ''bm_lewis'', ''jf_alpha'', ''jf_gongitsune'', ''jf_nezumi'',
      ''jf_tebukuro'']"

definition CLEANUP_FILES :: bool where
  "CLEANUP_FILES = True"

section \<open>Request validation\<close>

definition msg_body_required :: pystr where
  "msg_body_required = ascii ''Request body is required''"

definition msg_text_required :: pystr where
  "msg_text_required = ascii ''Text field is required and cannot be empty''"

definition msg_text_too_long :: pystr where
  "msg_text_too_long =
     ascii ''Text length exceeds maximum of '' @ str_nat MAX_TEXT_LENGTH @ ascii '' characters''"

definition msg_invalid_voice :: pystr where
  "msg_invalid_voice =
     ascii ''Invalid voice. Allowed voices: '' @ join (ascii '', '') ALLOWED_VOICES"

definition msg_format :: pystr where
  "msg_format =
     ascii ''Only WAV format is supported. Please omit the format parameter or use 'wav'.''"

text \<open>
  \<open>voice not in config.ALLOWED_VOICES\<close> compares \<open>voice\<close> with each string of the list;
  a value that is not a string equals none of them.
\<close>

fun allowed_voice :: "json \<Rightarrow> pystr option" where
  "allowed_voice (JStr v) = (if v \<in> set ALLOWED_VOICES then Some v else None)"
| "allowed_voice _ = None"

definition validate_request_data :: "json \<Rightarrow> py_exception + (pystr \<times> pystr)" where
  "validate_request_data data =
     (if \<not> truthy data then Inl (BadRequest msg_body_required)
      else
        and_then (py_get data (ascii ''text'') (JStr [])) (\<lambda>text_field.
        and_then (py_strip text_field) (\<lambda>text.
          if text = [] then Inl (BadRequest msg_text_required)
          else if length text > MAX_TEXT_LENGTH then Inl (BadRequest msg_text_too_long)
          else
            and_then (py_get data (ascii ''voice'') (JStr (ascii ''af_heart''))) (\<lambda>voice.
              case allowed_voice voice of
                None \<Rightarrow> Inl (BadRequest msg_invalid_voice)
              | Some v \<Rightarrow>
                  and_then (py_get data (ascii ''format'') JNull) (\<lambda>format_param.
                    if truthy format_param then
                      and_then (py_lower format_param) (\<lambda>l.
                        if l \<noteq> ascii ''wav'' then Inl (BadRequest msg_format)
                        else Inr (text, v))
                    else Inr (text, v))))))"

section \<open>The world outside the program\<close>

text \<open>
  What the handlers touch beyond their arguments: the file system, the operating system
  running a command line (its outcome and what it does to the files), and the source of
  \<open>uuid.uuid4()\<close>. \<open>calls\<close> records every \<open>subprocess.run\<close> with its argument vector
  and its timeout, in order.

  A process that was started either ends in time, \<open>Exited returncode decodes\<close>, or does
  not, \<open>Overran\<close>. \<open>decodes\<close> tells whether the output captured from it is valid text in
  the encoding of the locale.
\<close>

type_synonym bytes = "nat list"

type_synonym filesystem = "pystr \<Rightarrow> bytes option"

datatype proc_result =
    Exited int bool
  | Overran
  | NotStarted

record world =
  files :: filesystem
  exec :: "pystr list \<Rightarrow> nat \<Rightarrow> filesystem \<Rightarrow> proc_result \<times> filesystem"
  calls :: "(pystr list \<times> nat) list"
  uuid_src :: "nat \<Rightarrow> pystr"
  uuid_ctr :: nat

definition os_path_exists :: "world \<Rightarrow> pystr \<Rightarrow> bool" where
  "os_path_exists w p \<longleftrightarrow> files w p \<noteq> None"

definition os_unlink :: "pystr \<Rightarrow> world \<Rightarrow> world" where
  "os_unlink p w = w\<lparr>files := (files w)(p := None)\<rparr>"

text \<open>\<open>os.path.join(a, b)\<close> on POSIX; 47 is the separator \<open>/\<close>.\<close>

definition os_path_join :: "pystr \<Rightarrow> pystr \<Rightarrow> pystr" where
  "os_path_join a b =
     (if b \<noteq> [] \<and> hd b = 47 then b
      else if a = [] \<or> last a = 47 then a @ b
      else a @ [47] @ b)"

text \<open>\<open>Config.TEMP_DIR\<close>, from the working directory the process was started in.\<close>

definition TEMP_DIR :: "pystr \<Rightarrow> pystr" where
  "TEMP_DIR cwd = os_path_join cwd (ascii ''output_temp'')"

definition uuid4 :: "world \<Rightarrow> pystr \<times> world" where
  "uuid4 w = (uuid_src w (uuid_ctr w), w\<lparr>uuid_ctr := Suc (uuid_ctr w)\<rparr>)"

text \<open>
  \<open>subprocess.run(cmd, capture_output=True, text=True, timeout=t)\<close>: the return code of
  a process that ended in time, \<open>TimeoutExpired\<close> for one that did not, an error for one
  that could not be started. With \<open>text=True\<close> the captured output is decoded before the
  call returns: if it is not valid text the call raises \<open>UnicodeDecodeError\<close>, whatever
  the return code and whatever the process wrote. The decoded output is only logged and
  is left out.
\<close>

definition subprocess_run :: "pystr list \<Rightarrow> nat \<Rightarrow> world \<Rightarrow> (py_exception + int) \<times> world" where
  "subprocess_run cmd timeout w =
     (let (r, fs) = exec w cmd timeout (files w);
          w' = w\<lparr>files := fs, calls := calls w @ [(cmd, timeout)]\<rparr>
      in (case r of
            Exited returncode decodes \<Rightarrow>
              if decodes then Inr returncode else Inl UnicodeDecodeError
          | Overran \<Rightarrow> Inl TimeoutExpired
          | NotStarted \<Rightarrow> Inl OSError,
          w'))"

section \<open>The synthesis invoker\<close>

definition kokoro_cmd :: "pystr \<Rightarrow> pystr \<Rightarrow> pystr \<Rightarrow> pystr list" where
  "kokoro_cmd text voice output_path =
     [ascii ''kokoro'', ascii ''--voice'', voice, ascii ''--text'', text, ascii ''-o'', output_path]"

text \<open>
  The result is \<open>Inr\<close> of the returned \<open>bool\<close>, or \<open>Inl\<close> of an exception that leaves the
  function; both \<open>except\<close> clauses return \<open>False\<close>.
\<close>

definition run_kokoro_command ::
  "pystr \<Rightarrow> pystr \<Rightarrow> pystr \<Rightarrow> world \<Rightarrow> (py_exception + bool) \<times> world" where
  "run_kokoro_command text voice output_path w =
     (let cmd = kokoro_cmd text voice output_path;
          (result, w') = subprocess_run cmd 60 w
      in case result of
           Inr returncode \<Rightarrow>
             if returncode \<noteq> 0 then (Inr False, w')
             else if \<not> os_path_exists w' output_path then (Inr False, w')
             else (Inr True, w')
         | Inl TimeoutExpired \<Rightarrow> (Inr False, w')
         | Inl _ \<Rightarrow> (Inr False, w'))"

section \<open>Responses and endpoints\<close>

datatype payload =
    Json json
  | Attachment bytes pystr pystr
  | Inline bytes "(pystr \<times> pystr) list"

record response =
  status :: nat
  payload :: payload

definition error_response :: "nat \<Rightarrow> string \<Rightarrow> pystr \<Rightarrow> response" where
  "error_response code err msg =
     \<lparr>status = code,
      payload = Json (JDict [(ascii ''error'', JStr (ascii err)), (ascii ''message'', JStr msg)])\<rparr>"

text \<open>\<open>str(e)\<close> of a \<open>BadRequest\<close> with description \<open>d\<close>.\<close>

definition str_BadRequest :: "pystr \<Rightarrow> pystr" where
  "str_BadRequest d = ascii ''400 Bad Request: '' @ d"

text \<open>The two \<open>except\<close> clauses that close each synthesis handler.\<close>

fun on_exception :: "py_exception \<Rightarrow> response" where
  "on_exception (BadRequest d) = error_response 400 ''Invalid request'' (str_BadRequest d)"
| "on_exception _ =
     error_response 500 ''Internal server error'' (ascii ''An unexpected error occurred'')"

definition synthesis_failed :: response where
  "synthesis_failed =
     error_response 500 ''TTS synthesis failed'' (ascii ''Failed to generate audio file'')"

definition output_path_of :: "pystr \<Rightarrow> pystr \<Rightarrow> pystr" where
  "output_path_of cwd file_id =
     os_path_join (TEMP_DIR cwd) (ascii ''kokoro_tts_'' @ file_id @ ascii ''.wav'')"

definition health_check :: "world \<Rightarrow> response \<times> world" where
  "health_check w =
     (\<lparr>status = 200,
       payload = Json (JDict
         [(ascii ''status'', JStr (ascii ''healthy'')),
          (ascii ''service'', JStr (ascii ''Kokoro TTS API'')),
          (ascii ''version'', JStr (ascii ''1.0.0'')),
          (ascii ''supported_format'', JStr (ascii ''wav''))])\<rparr>, w)"

definition get_voices :: "world \<Rightarrow> response \<times> world" where
  "get_voices w =
     (\<lparr>status = 200,
       payload = Json (JDict
         [(ascii ''voices'', JList (map JStr ALLOWED_VOICES)),
          (ascii ''default'', JStr (ascii ''af_heart'')),
          (ascii ''supported_format'', JStr (ascii ''wav''))])\<rparr>, w)"

text \<open>
  \<open>/synthesize\<close>. The argument \<open>body\<close> is what \<open>request.get_json()\<close> does: it returns
  the parsed document or raises. \<open>send_file\<close> opens the artifact. The handler registers
  \<open>remove_file\<close>, a function of one argument, with \<open>call_on_close\<close>, which calls what it
  is given with no argument: when the response is closed the call raises \<open>TypeError\<close>
  before it reaches \<open>os.unlink\<close>, so this endpoint leaves the artifact where it is,
  whatever \<open>CLEANUP_FILES\<close> says.
\<close>

definition synthesize_text :: "pystr \<Rightarrow> py_exception + json \<Rightarrow> world \<Rightarrow> response \<times> world" where
  "synthesize_text cwd body w =
     (case and_then body validate_request_data of
        Inl e \<Rightarrow> (on_exception e, w)
      | Inr (text, voice) \<Rightarrow>
          (let (file_id, w1) = uuid4 w;
               output_path = output_path_of cwd file_id;
               (success, w2) = run_kokoro_command text voice output_path w1
           in case success of
                Inl e \<Rightarrow> (on_exception e, w2)
              | Inr ok \<Rightarrow>
                  if \<not> ok then (synthesis_failed, w2)
                  else (case files w2 output_path of
                          None \<Rightarrow> (on_exception OSError, w2)
                        | Some audio \<Rightarrow>
                            (\<lparr>status = 200,
                              payload = Attachment audio (ascii ''tts_output.wav'') (ascii ''audio/wav'')\<rparr>,
                             w2))))"

text \<open>\<open>/synthesize/stream\<close>: the artifact is read into memory and removed at once.\<close>

definition synthesize_stream :: "pystr \<Rightarrow> py_exception + json \<Rightarrow> world \<Rightarrow> response \<times> world" where
  \<open>synthesize_stream cwd body w =
     (case and_then body validate_request_data of
        Inl e \<Rightarrow> (on_exception e, w)
      | Inr (text, voice) \<Rightarrow>
          (let (file_id, w1) = uuid4 w;
               output_path = output_path_of cwd file_id;
               (success, w2) = run_kokoro_command text voice output_path w1
           in case success of
                Inl e \<Rightarrow> (on_exception e, w2)
              | Inr ok \<Rightarrow>
                  if \<not> ok then (synthesis_failed, w2)
                  else (case files w2 output_path of
                          None \<Rightarrow>
                            (error_response 500 ''File read error''
                               (ascii ''Failed to read generated audio file''), w2)
                        | Some audio_data \<Rightarrow>
                            (\<lparr>status = 200,
                              payload = Inline audio_data
                                [(ascii ''Content-Type'', ascii ''audio/wav''),
                                 (ascii ''Content-Disposition'',
                                  ascii ''inline; filename="tts_output.wav"'')]\<rparr>,
                             if CLEANUP_FILES then os_unlink output_path w2 else w2))))\<close>

text \<open>The routes of the application, and a run of the server over a list of requests.\<close>

datatype request =
    GET_health
  | GET_voices
  | POST_synthesize "py_exception + json"
  | POST_synthesize_stream "py_exception + json"

fun dispatch :: "pystr \<Rightarrow> request \<Rightarrow> world \<Rightarrow> response \<times> world" where
  "dispatch cwd GET_health w = health_check w"
| "dispatch cwd GET_voices w = get_voices w"
| "dispatch cwd (POST_synthesize body) w = synthesize_text cwd body w"
| "dispatch cwd (POST_synthesize_stream body) w = synthesize_stream cwd body w"

fun serve :: "pystr \<Rightarrow> request list \<Rightarrow> world \<Rightarrow> response list \<times> world" where
  "serve cwd [] w = ([], w)"
| "serve cwd (rq # rqs) w =
     (let (r, w1) = dispatch cwd rq w; (rs, w2) = serve cwd rqs w1 in (r # rs, w2))"

section \<open>Notions used in the statements\<close>

text \<open>The value a request body gives to a field, if it is an object that has the field.\<close>

fun field :: "json \<Rightarrow> pystr \<Rightarrow> json option" where
  "field (JDict kvs) k = map_of kvs k"
| "field _ k = None"

fun is_str :: "json \<Rightarrow> bool" where
  "is_str (JStr s) = True"
| "is_str _ = False"

text \<open>
  A body whose fields have the types the handlers' documentation gives them: the body is
  absent or empty, or it is an object whose \<open>text\<close>, if present, is a string and whose
  \<open>format\<close>, if present, is a string or a value that counts as false.
\<close>

fun well_typed_body :: "json \<Rightarrow> bool" where
  "well_typed_body (JDict kvs) =
     ((case map_of kvs (ascii ''text'') of None \<Rightarrow> True | Some v \<Rightarrow> is_str v) \<and>
      (case map_of kvs (ascii ''format'') of None \<Rightarrow> True | Some v \<Rightarrow> is_str v \<or> \<not> truthy v))"
| "well_typed_body data = (\<not> truthy data)"

text \<open>The body without a field: an object loses the bindings of the key.\<close>

fun without_key :: "pystr \<Rightarrow> json \<Rightarrow> json" where
  "without_key k (JDict kvs) = JDict (filter (\<lambda>kv. fst kv \<noteq> k) kvs)"
| "without_key k data = data"

text \<open>The spellings that equal \<open>wav\<close> when case is ignored.\<close>

definition wav_spellings :: "pystr list" where
  "wav_spellings =
     map ascii [''wav'', ''waV'', ''wAv'', ''wAV'', ''Wav'', ''WaV'', ''WAv'', ''WAV'']"

subsection \<open>The five checks, each on its own\<close>

text \<open>
  The checks in the order the specification lists them: body, empty text, text length,
  voice, format. Each is a function of the body alone and gives the exception it ends
  with, if any. \<open>first_failure\<close> runs a list of checks and gives the first such exception.
\<close>

definition stripped_text :: "json \<Rightarrow> py_exception + pystr" where
  "stripped_text data = and_then (py_get data (ascii ''text'') (JStr [])) py_strip"

definition chosen_voice :: "json \<Rightarrow> py_exception + pystr" where
  "chosen_voice data =
     and_then (py_get data (ascii ''voice'') (JStr (ascii ''af_heart''))) (\<lambda>voice.
       case allowed_voice voice of
         None \<Rightarrow> Inl (BadRequest msg_invalid_voice)
       | Some v \<Rightarrow> Inr v)"

definition check_body :: "json \<Rightarrow> py_exception option" where
  "check_body data = (if \<not> truthy data then Some (BadRequest msg_body_required) else None)"

definition check_text_present :: "json \<Rightarrow> py_exception option" where
  "check_text_present data =
     (case stripped_text data of
        Inl e \<Rightarrow> Some e
      | Inr text \<Rightarrow> if text = [] then Some (BadRequest msg_text_required) else None)"

definition check_text_length :: "json \<Rightarrow> py_exception option" where
  "check_text_length data =
     (case stripped_text data of
        Inl e \<Rightarrow> Some e
      | Inr text \<Rightarrow>
          if length text > MAX_TEXT_LENGTH then Some (BadRequest msg_text_too_long) else None)"

definition check_voice :: "json \<Rightarrow> py_exception option" where
  "check_voice data = (case chosen_voice data of Inl e \<Rightarrow> Some e | Inr v \<Rightarrow> None)"

definition check_format :: "json \<Rightarrow> py_exception option" where
  "check_format data =
     (case py_get data (ascii ''format'') JNull of
        Inl e \<Rightarrow> Some e
      | Inr format_param \<Rightarrow>
          if truthy format_param then
            (case py_lower format_param of
               Inl e \<Rightarrow> Some e
             | Inr l \<Rightarrow> if l \<noteq> ascii ''wav'' then Some (BadRequest msg_format) else None)
          else None)"

definition checks_in_order :: "(json \<Rightarrow> py_exception option) list" where
  "checks_in_order =
     [check_body, check_text_present, check_text_length, check_voice, check_format]"

fun first_failure :: "(json \<Rightarrow> py_exception option) list \<Rightarrow> json \<Rightarrow> py_exception option" where
  "first_failure [] data = None"
| "first_failure (c # cs) data =
     (case c data of Some e \<Rightarrow> Some e | None \<Rightarrow> first_failure cs data)"

definition validated_pair :: "json \<Rightarrow> py_exception + (pystr \<times> pystr)" where
  "validated_pair data =
     and_then (stripped_text data) (\<lambda>text.
     and_then (chosen_voice data) (\<lambda>voice. Inr (text, voice)))"

subsection \<open>Artifact paths\<close>

text \<open>
  The output path of each synthesis run so far: the last argument of each recorded
  command line, the one that follows \<open>-o\<close>.
\<close>

definition artifact_paths :: "world \<Rightarrow> pystr list" where
  "artifact_paths w = map (\<lambda>(cmd, timeout). last cmd) (calls w)"

subsection \<open>Test doubles for the synthesis tool\<close>

text \<open>
  Four stand-ins for the external tool: one writes a fixed file at the path that follows
  \<open>-o\<close> and exits with 0, one exits with 0 and writes nothing, one does not end in time,
  and one writes the file and exits with 0 but prints bytes that are not valid text.
\<close>

definition fake_kokoro :: "pystr list \<Rightarrow> nat \<Rightarrow> filesystem \<Rightarrow> proc_result \<times> filesystem" where
  "fake_kokoro cmd timeout fs = (Exited 0 True, fs(last cmd \<mapsto> [82, 73, 70, 70]))"

definition silent_kokoro :: "pystr list \<Rightarrow> nat \<Rightarrow> filesystem \<Rightarrow> proc_result \<times> filesystem" where
  "silent_kokoro cmd timeout fs = (Exited 0 True, fs)"

definition slow_kokoro :: "pystr list \<Rightarrow> nat \<Rightarrow> filesystem \<Rightarrow> proc_result \<times> filesystem" where
  "slow_kokoro cmd timeout fs = (Overran, fs)"

definition garbled_kokoro :: "pystr list \<Rightarrow> nat \<Rightarrow> filesystem \<Rightarrow> proc_result \<times> filesystem" where
  "garbled_kokoro cmd timeout fs = (Exited 0 False, fs(last cmd \<mapsto> [82, 73, 70, 70]))"

definition world_with ::
  "(pystr list \<Rightarrow> nat \<Rightarrow> filesystem \<Rightarrow> proc_result \<times> filesystem) \<Rightarrow> world" where
  "world_with tool =
     \<lparr>files = Map.empty, exec = tool, calls = [], uuid_src = (\<lambda>n. [97 + n]), uuid_ctr = 0\<rparr>"

section \<open>The synthesis invoker: properties\<close>

lemma run_kokoro_command_world:
  "snd (run_kokoro_command text voice p w) =
     w\<lparr>files := snd (exec w (kokoro_cmd text voice p) 60 (files w)),
       calls := calls w @ [(kokoro_cmd text voice p, 60)]\<rparr>"
  by (auto simp: run_kokoro_command_def subprocess_run_def Let_def
           split: prod.splits proc_result.splits)

lemma run_kokoro_command_calls:
  "calls (snd (run_kokoro_command text voice p w)) = calls w @ [(kokoro_cmd text voice p, 60)]"
  by (simp add: run_kokoro_command_world)

lemma run_kokoro_command_result:
  "fst (run_kokoro_command text voice p w) =
     Inr (fst (exec w (kokoro_cmd text voice p) 60 (files w)) = Exited 0 True \<and>
          snd (exec w (kokoro_cmd text voice p) 60 (files w)) p \<noteq> None)"
  by (auto simp: run_kokoro_command_def subprocess_run_def os_path_exists_def Let_def
           split: prod.splits proc_result.splits)

subsection \<open>C1\<close>

text \<open>
  C1 (as amended). For every text, voice and output path, \<open>run_kokoro_command\<close> runs the
  command exactly once, with the timeout 60, and leaves the files as the process left
  them; it returns a \<open>bool\<close> and never an exception; and the \<open>bool\<close> is \<open>True\<close> exactly
  when \<open>subprocess.run\<close> returns (the process was started, ended in time, and its captured
  output is valid text) with return code 0 and the output file exists afterwards. A
  nonzero status, a missing file, a timeout, a process that cannot be started and output
  that cannot be decoded all give \<open>False\<close>.
\<close>

theorem run_kokoro_command_success_iff:
  "run_kokoro_command text voice output_path w =
     (Inr (fst (exec w (kokoro_cmd text voice output_path) 60 (files w)) = Exited 0 True \<and>
           snd (exec w (kokoro_cmd text voice output_path) 60 (files w)) output_path \<noteq> None),
      w\<lparr>files := snd (exec w (kokoro_cmd text voice output_path) 60 (files w)),
        calls := calls w @ [(kokoro_cmd text voice output_path, 60)]\<rparr>)"
  by (rule prod_eqI) (simp_all only: fst_conv snd_conv run_kokoro_command_result
        run_kokoro_command_world)

theorem run_kokoro_command_success_iff_witness:
  "fst (run_kokoro_command (ascii ''Hi'') (ascii ''af_heart'') (ascii ''/tmp/a.wav'')
          (world_with fake_kokoro)) = Inr True \<and>
   files (snd (run_kokoro_command (ascii ''Hi'') (ascii ''af_heart'') (ascii ''/tmp/a.wav'')
          (world_with fake_kokoro))) (ascii ''/tmp/a.wav'') = Some [82, 73, 70, 70] \<and>
   calls (snd (run_kokoro_command (ascii ''Hi'') (ascii ''af_heart'') (ascii ''/tmp/a.wav'')
          (world_with fake_kokoro))) =
     [([ascii ''kokoro'', ascii ''--voice'', ascii ''af_heart'', ascii ''--text'', ascii ''Hi'',
        ascii ''-o'', ascii ''/tmp/a.wav''], 60)] \<and>
   fst (run_kokoro_command (ascii ''Hi'') (ascii ''af_heart'') (ascii ''/tmp/a.wav'')
          (world_with silent_kokoro)) = Inr False \<and>
   fst (run_kokoro_command (ascii ''Hi'') (ascii ''af_heart'') (ascii ''/tmp/a.wav'')
          (world_with slow_kokoro)) = Inr False"
  using
    run_kokoro_command_success_iff [of "ascii ''Hi''" "ascii ''af_heart''" "ascii ''/tmp/a.wav''"
      "world_with fake_kokoro"]
    run_kokoro_command_success_iff [of "ascii ''Hi''" "ascii ''af_heart''" "ascii ''/tmp/a.wav''"
      "world_with silent_kokoro"]
    run_kokoro_command_success_iff [of "ascii ''Hi''" "ascii ''af_heart''" "ascii ''/tmp/a.wav''"
      "world_with slow_kokoro"]
  by (simp add: world_with_def fake_kokoro_def silent_kokoro_def slow_kokoro_def
        kokoro_cmd_def ascii_def)

text \<open>
  A tool that writes the output file and exits with status 0, but prints bytes that are
  not valid text: the process exits with status zero, the file exists afterwards, and
  \<open>run_kokoro_command\<close> returns \<open>False\<close>.
\<close>

theorem exit_zero_with_file_reported_failed:
  "fst (exec (world_with garbled_kokoro)
          (kokoro_cmd (ascii ''Hi'') (ascii ''af_heart'') (ascii ''/tmp/a.wav'')) 60
          (files (world_with garbled_kokoro))) = Exited 0 False \<and>
   files (snd (run_kokoro_command (ascii ''Hi'') (ascii ''af_heart'') (ascii ''/tmp/a.wav'')
          (world_with garbled_kokoro))) (ascii ''/tmp/a.wav'') = Some [82, 73, 70, 70] \<and>
   fst (run_kokoro_command (ascii ''Hi'') (ascii ''af_heart'') (ascii ''/tmp/a.wav'')
          (world_with garbled_kokoro)) = Inr False"
  by (simp add: run_kokoro_command_result run_kokoro_command_world world_with_def
        garbled_kokoro_def kokoro_cmd_def)

section \<open>The voices endpoint\<close>

subsection \<open>C8\<close>

text \<open>
  C8. \<open>GET /voices\<close> answers 200 with the voices of the allow-list (the list the
  validator checks membership in, which holds the 23 names of the source in their order),
  the default \<open>af_heart\<close> and the format \<open>wav\<close>; and it leaves the world as it was.
\<close>

theorem get_voices_fixed_list:
  "fst (dispatch cwd GET_voices w) =
     \<lparr>status = 200,
      payload = Json (JDict
        [(ascii ''voices'', JList (map JStr ALLOWED_VOICES)),
         (ascii ''default'', JStr (ascii ''af_heart'')),
         (ascii ''supported_format'', JStr (ascii ''wav''))])\<rparr> \<and>
   snd (dispatch cwd GET_voices w) = w \<and>
   ALLOWED_VOICES = map ascii
     [''af_alloy'', ''af_aoede'', ''af_bella'', ''af_heart'', ''af_jessica'', ''af_kore'',
      ''af_nicole'', ''af_nova'', ''af_river'', ''af_sarah'', ''af_sky'', ''am_adam'',
      ''am_michael'', ''bf_alice'', ''bf_emma'', ''bf_isabella'', ''bf_lily'',
      ''bm_george'', ''bm_lewis'', ''jf_alpha'', ''jf_gongitsune'', ''jf_nezumi'',
      ''jf_tebukuro''] \<and>
   length ALLOWED_VOICES = 23 \<and>
   (allowed_voice (JStr v) = Some v \<longleftrightarrow> v \<in> set ALLOWED_VOICES)"
  by (simp add: get_voices_def) (simp add: ALLOWED_VOICES_def)

theorem get_voices_fixed_list_witness:
  "status (fst (dispatch (ascii ''/srv'') GET_voices (world_with fake_kokoro))) = 200 \<and>
   snd (dispatch (ascii ''/srv'') GET_voices (world_with fake_kokoro)) = world_with fake_kokoro \<and>
   length ALLOWED_VOICES = 23"
proof -
  note h = get_voices_fixed_list [of "ascii ''/srv''" "world_with fake_kokoro" "ascii ''af_heart''"]
  from h have "fst (dispatch (ascii ''/srv'') GET_voices (world_with fake_kokoro)) =
     \<lparr>status = 200,
      payload = Json (JDict
        [(ascii ''voices'', JList (map JStr ALLOWED_VOICES)),
         (ascii ''default'', JStr (ascii ''af_heart'')),
         (ascii ''supported_format'', JStr (ascii ''wav''))])\<rparr>"
    and "snd (dispatch (ascii ''/srv'') GET_voices (world_with fake_kokoro)) = world_with fake_kokoro"
    and "length ALLOWED_VOICES = 23"
    by blast+
  then show ?thesis by (simp del: dispatch.simps)
qed

section \<open>Strings\<close>

lemma lower_Nil [simp]: "lower [] = []"
  by (simp add: lower_def)

lemma lower_Nil_iff: "lower s = [] \<longleftrightarrow> s = []"
  by (cases s) (auto simp: lower_def lower_cp_def)

lemma lower_Cons_ascii:
  "97 \<le> x \<Longrightarrow> x \<le> 122 \<Longrightarrow> x \<noteq> 105 \<Longrightarrow> x \<noteq> 107 \<Longrightarrow>
   lower (c # cs) = x # xs \<longleftrightarrow> (c = x \<or> (65 \<le> c \<and> c \<le> 90 \<and> c + 32 = x)) \<and> lower cs = xs"
  by (auto simp: lower_def lower_cp_def)

lemma lower_wav_iff: "lower f = ascii ''wav'' \<longleftrightarrow> f \<in> set wav_spellings"
proof -
  have "lower f = [119, 97, 118] \<longleftrightarrow>
          (\<exists>a b c. f = [a, b, c] \<and> (a = 119 \<or> a = 87) \<and> (b = 97 \<or> b = 65) \<and> (c = 118 \<or> c = 86))"
  proof (cases f)
    case Nil
    then show ?thesis by simp
  next
    case f: (Cons a f1)
    show ?thesis
    proof (cases f1)
      case Nil
      with f show ?thesis by (auto simp: lower_Cons_ascii)
    next
      case f1: (Cons b f2)
      show ?thesis
      proof (cases f2)
        case Nil
        with f f1 show ?thesis by (auto simp: lower_Cons_ascii)
      next
        case (Cons c f3)
        with f f1 show ?thesis by (auto simp: lower_Cons_ascii lower_Nil_iff)
      qed
    qed
  qed
  then show ?thesis by (auto simp: ascii_def wav_spellings_def)
qed

lemma strip_Nil [simp]: "strip [] = []"
  by (simp add: strip_def)

lemma last_dropWhile: "dropWhile P xs \<noteq> [] \<Longrightarrow> last (dropWhile P xs) = last xs"
  by (induction xs) (auto split: if_splits)

lemma strip_ends:
  assumes "strip s \<noteq> []"
  shows "\<not> isspace (hd (strip s))" and "\<not> isspace (last (strip s))"
proof -
  let ?a = "dropWhile isspace s"
  let ?b = "dropWhile isspace (rev ?a)"
  from assms have b: "?b \<noteq> []" by (simp add: strip_def)
  have a: "?a \<noteq> []"
  proof
    assume "?a = []"
    then have "?b = []" by (simp only: rev.simps dropWhile.simps)
    with b show False ..
  qed
  have "hd (strip s) = last ?b" using b by (simp add: strip_def hd_rev)
  also have "\<dots> = last (rev ?a)" using b by (rule last_dropWhile)
  also have "\<dots> = hd ?a" using a by (simp add: last_rev)
  finally show "\<not> isspace (hd (strip s))" using a by (simp add: hd_dropWhile)
  have "last (strip s) = hd ?b" using b by (simp add: strip_def last_rev)
  then show "\<not> isspace (last (strip s))" using b by (simp add: hd_dropWhile)
qed

lemma strip_id: "s = [] \<or> (\<not> isspace (hd s) \<and> \<not> isspace (last s)) \<Longrightarrow> strip s = s"
proof -
  assume h: "s = [] \<or> (\<not> isspace (hd s) \<and> \<not> isspace (last s))"
  then have 1: "dropWhile isspace s = s"
    by (auto simp: dropWhile_eq_self_iff)
  from h have "dropWhile isspace (rev s) = rev s"
    by (auto simp: dropWhile_eq_self_iff hd_rev)
  with 1 show ?thesis by (simp add: strip_def)
qed

lemma strip_strip [simp]: "strip (strip s) = strip s"
  by (rule strip_id) (use strip_ends [of s] in blast)

lemma strip_padded: "\<not> isspace a \<Longrightarrow> strip (a # replicate n 32) = [a]"
proof -
  assume a: "\<not> isspace a"
  have "dropWhile isspace (replicate n 32 @ [a]) = dropWhile isspace [a]"
    by (rule dropWhile_append2) (simp add: isspace_def)
  with a show ?thesis by (simp add: strip_def)
qed

section \<open>Request validation: properties\<close>

lemma is_str_iff: "is_str v \<longleftrightarrow> (\<exists>s. v = JStr s)"
  by (cases v) simp_all

lemma keys_distinct [simp]:
  "ascii ''text'' \<noteq> ascii ''voice''" "ascii ''text'' \<noteq> ascii ''format''"
  "ascii ''voice'' \<noteq> ascii ''text''" "ascii ''voice'' \<noteq> ascii ''format''"
  "ascii ''format'' \<noteq> ascii ''text''" "ascii ''format'' \<noteq> ascii ''voice''"
  by (simp_all add: ascii_def)


lemma af_heart_allowed: "allowed_voice (JStr (ascii ''af_heart'')) = Some (ascii ''af_heart'')"
  by (simp add: ALLOWED_VOICES_def ascii_def)

lemma allowed_voice_Some: "allowed_voice x = Some v \<longleftrightarrow> x = JStr v \<and> v \<in> set ALLOWED_VOICES"
  by (cases x) auto

text \<open>The validator is the five checks run one after the other.\<close>

lemma validate_by_checks:
  "validate_request_data data =
     (case check_body data of Some e \<Rightarrow> Inl e | None \<Rightarrow>
      case check_text_present data of Some e \<Rightarrow> Inl e | None \<Rightarrow>
      case check_text_length data of Some e \<Rightarrow> Inl e | None \<Rightarrow>
      case check_voice data of Some e \<Rightarrow> Inl e | None \<Rightarrow>
      case check_format data of Some e \<Rightarrow> Inl e | None \<Rightarrow> validated_pair data)"
  by (auto simp: validate_request_data_def check_body_def check_text_present_def
        check_text_length_def check_voice_def check_format_def stripped_text_def
        chosen_voice_def validated_pair_def and_then_def
      split: sum.splits option.splits)

lemma field_Some_dict: "field data k = Some v \<Longrightarrow> \<exists>kvs. data = JDict kvs \<and> kvs \<noteq> [] \<and> map_of kvs k = Some v"
  by (cases data) auto

lemma field_Some_truthy: "field data k = Some v \<Longrightarrow> truthy data"
  by (cases data) auto

lemma py_get_field: "field data k = Some v \<Longrightarrow> py_get data k d = Inr v"
  by (cases data) auto

lemma stripped_text_JStr: "field data (ascii ''text'') = Some (JStr t) \<Longrightarrow> stripped_text data = Inr (strip t)"
  by (simp add: stripped_text_def and_then_def py_get_field)

lemma stripped_text_absent: "map_of kvs (ascii ''text'') = None \<Longrightarrow> stripped_text (JDict kvs) = Inr []"
  by (simp add: stripped_text_def and_then_def)

lemma validate_falsy: "\<not> truthy data \<Longrightarrow> validate_request_data data = Inl (BadRequest msg_body_required)"
  by (simp add: validate_request_data_def)

lemma validate_not_dict:
  "truthy data \<Longrightarrow> \<forall>kvs. data \<noteq> JDict kvs \<Longrightarrow> validate_request_data data = Inl AttributeError"
  by (cases data) (simp_all add: validate_request_data_def and_then_def)

lemma validate_text_absent:
  "kvs \<noteq> [] \<Longrightarrow> map_of kvs (ascii ''text'') = None \<Longrightarrow>
   validate_request_data (JDict kvs) = Inl (BadRequest msg_text_required)"
  by (simp add: validate_request_data_def and_then_def)

lemma validate_success:
  "validate_request_data data = Inr (text, voice) \<Longrightarrow>
   truthy data \<and> stripped_text data = Inr text \<and> text \<noteq> [] \<and> length text \<le> MAX_TEXT_LENGTH \<and>
   chosen_voice data = Inr voice \<and> voice \<in> set ALLOWED_VOICES \<and> check_format data = None"
  by (auto simp: validate_request_data_def stripped_text_def chosen_voice_def check_format_def
        and_then_def allowed_voice_Some
      split: sum.splits option.splits if_splits)

lemma synthesize_text_invalid:
  "validate_request_data data = Inl e \<Longrightarrow> synthesize_text cwd (Inr data) w = (on_exception e, w)"
  by (simp add: synthesize_text_def and_then_def)

lemma synthesize_stream_invalid:
  "validate_request_data data = Inl e \<Longrightarrow> synthesize_stream cwd (Inr data) w = (on_exception e, w)"
  by (simp add: synthesize_stream_def and_then_def)

lemma validate_well_typed:
  assumes "well_typed_body data"
  shows "(\<exists>text voice. validate_request_data data = Inr (text, voice)) \<or>
         (\<exists>d. validate_request_data data = Inl (BadRequest d))"
proof (cases "truthy data")
  case False
  then show ?thesis by (simp add: validate_falsy)
next
  case True
  with assms obtain kvs where d: "data = JDict kvs" by (cases data) auto
  from assms d obtain t where t: "py_get data (ascii ''text'') (JStr []) = Inr (JStr t)"
    by (auto simp: is_str_iff split: option.splits)
  from d obtain voice where v: "py_get data (ascii ''voice'') (JStr (ascii ''af_heart'')) = Inr voice"
    by simp
  from assms d obtain f where f: "py_get data (ascii ''format'') JNull = Inr f"
    and ft: "is_str f \<or> \<not> truthy f"
    by (auto split: option.splits)
  from ft have "\<not> truthy f \<or> (\<exists>l. py_lower f = Inr l)" by (auto simp: is_str_iff)
  with True t v f show ?thesis
    by (auto simp: validate_request_data_def and_then_def split: option.splits if_splits)
qed

lemma text_typed_client_error:
  assumes "field data (ascii ''text'') = None \<or> (\<exists>t. field data (ascii ''text'') = Some (JStr t))"
    and "truthy data \<longrightarrow> (\<exists>kvs. data = JDict kvs)"
    and "check_text_present data = None \<longrightarrow> check_text_length data = None \<longrightarrow> check_voice data = None \<longrightarrow>
           (\<exists>d. check_format data = Some (BadRequest d))"
  shows "\<exists>d. validate_request_data data = Inl (BadRequest d)"
proof (cases "truthy data")
  case False
  then show ?thesis by (simp add: validate_falsy)
next
  case True
  with assms(2) obtain kvs where d: "data = JDict kvs" by auto
  from assms(1) d obtain t where t: "stripped_text data = Inr t"
    by (auto simp: stripped_text_JStr stripped_text_absent)
  from d obtain x where x: "py_get data (ascii ''voice'') (JStr (ascii ''af_heart'')) = Inr x"
    by simp
  show ?thesis
    using assms(3) t x True
    by (auto simp: validate_by_checks check_body_def check_text_present_def check_text_length_def
          check_voice_def chosen_voice_def and_then_def
        split: option.splits sum.splits if_splits)
qed

subsection \<open>C2\<close>

text \<open>
  On a body that is well typed (absent or empty, or an object whose \<open>text\<close>, if present,
  is a string and whose \<open>format\<close>, if present, is a string or counts as false), the
  validator returns a pair or raises \<open>BadRequest\<close>; in the second case both synthesis
  endpoints answer 400 with the error \<open>Invalid request\<close> and the message of the exception,
  and leave the world as it was. A body that \<open>request.get_json()\<close> rejects with
  \<open>BadRequest\<close> gets the same answer.
\<close>

lemma validate_well_typed_client_error:
  assumes "well_typed_body data"
  shows "(\<exists>text voice. validate_request_data data = Inr (text, voice)) \<or>
         (\<exists>d. validate_request_data data = Inl (BadRequest d) \<and>
              synthesize_text cwd (Inr data) w =
                (error_response 400 ''Invalid request'' (str_BadRequest d), w) \<and>
              synthesize_stream cwd (Inr data) w =
                (error_response 400 ''Invalid request'' (str_BadRequest d), w))"
  using validate_well_typed [OF assms]
  by (auto simp: synthesize_text_invalid synthesize_stream_invalid)

lemma unparsed_body_client_error:
  "synthesize_text cwd (Inl (BadRequest d)) w =
     (error_response 400 ''Invalid request'' (str_BadRequest d), w) \<and>
   synthesize_stream cwd (Inl (BadRequest d)) w =
     (error_response 400 ''Invalid request'' (str_BadRequest d), w)"
  by (simp add: synthesize_text_def synthesize_stream_def and_then_def)

text \<open>
  The voice path turns a value that is not a string into \<open>BadRequest\<close>: a body whose
  \<open>voice\<close> is the number 5 is answered with 400.
\<close>

lemma untyped_voice_client_error:
  "validate_request_data (JDict [(ascii ''text'', JStr (ascii ''Hi'')), (ascii ''voice'', JInt 5)]) =
     Inl (BadRequest msg_invalid_voice)"
  by (simp add: validate_request_data_def and_then_def ascii_def strip_def isspace_def
        MAX_TEXT_LENGTH_def)

text \<open>
  C2. The claim: for every request body, whatever the values of its fields, the validator
  produces a pair or fails with the one client error, answered with 400. The code does
  not do this on the body whose \<open>text\<close> is the number 5: \<open>strip\<close> is not an attribute of a
  number, the validator raises \<open>AttributeError\<close> instead of \<open>BadRequest\<close>, and the
  endpoint answers 500 through its handler for unexpected errors.
\<close>

theorem validate_request_data_attribute_error:
  "validate_request_data (JDict [(ascii ''text'', JInt 5)]) = Inl AttributeError \<and>
   status (fst (synthesize_text (ascii ''/srv'') (Inr (JDict [(ascii ''text'', JInt 5)]))
     (world_with fake_kokoro))) = 500 \<and>
   status (fst (synthesize_stream (ascii ''/srv'') (Inr (JDict [(ascii ''text'', JInt 5)]))
     (world_with fake_kokoro))) = 500"
  by (simp add: synthesize_text_def synthesize_stream_def validate_request_data_def
        and_then_def ascii_def error_response_def)

subsection \<open>C3\<close>

lemma validate_too_long:
  assumes "field data (ascii ''text'') = Some (JStr t)" and "length (strip t) > MAX_TEXT_LENGTH"
  shows "validate_request_data data = Inl (BadRequest msg_text_too_long)"
proof -
  from assms(2) have "strip t \<noteq> []" by auto
  with assms show ?thesis
    by (simp add: validate_by_checks check_body_def check_text_present_def check_text_length_def
          stripped_text_JStr field_Some_truthy)
qed

text \<open>
  C3 (as amended). For every request whose \<open>text\<close> is a string that is longer than
  \<open>MAX_TEXT_LENGTH\<close> (10000) once surrounding whitespace is stripped, validation fails
  with the length error, and both synthesis endpoints answer 400 and leave the world as it
  was.
\<close>

theorem stripped_text_too_long_rejected:
  assumes "field data (ascii ''text'') = Some (JStr t)" and "length (strip t) > MAX_TEXT_LENGTH"
  shows "validate_request_data data = Inl (BadRequest msg_text_too_long) \<and>
         synthesize_text cwd (Inr data) w =
           (error_response 400 ''Invalid request'' (str_BadRequest msg_text_too_long), w) \<and>
         synthesize_stream cwd (Inr data) w =
           (error_response 400 ''Invalid request'' (str_BadRequest msg_text_too_long), w)"
  using validate_too_long [OF assms]
  by (simp add: synthesize_text_invalid synthesize_stream_invalid)

theorem stripped_text_too_long_rejected_witness:
  "length (strip (replicate 10001 97)) > MAX_TEXT_LENGTH \<and>
   validate_request_data (JDict [(ascii ''text'', JStr (replicate 10001 97))]) =
     Inl (BadRequest msg_text_too_long) \<and>
   status (fst (synthesize_text (ascii ''/srv'')
     (Inr (JDict [(ascii ''text'', JStr (replicate 10001 97))])) (world_with fake_kokoro))) = 400"
proof -
  have s: "strip (replicate 10001 97) = replicate 10001 97"
    by (rule strip_id) (simp add: isspace_def)
  have f: "field (JDict [(ascii ''text'', JStr (replicate 10001 97))]) (ascii ''text'') =
             Some (JStr (replicate 10001 97))"
    by simp
  have l: "length (strip (replicate 10001 97)) > MAX_TEXT_LENGTH"
    by (simp add: s MAX_TEXT_LENGTH_def)
  from stripped_text_too_long_rejected [OF f l, of "ascii ''/srv''" "world_with fake_kokoro"] l
  show ?thesis by (simp add: error_response_def)
qed

text \<open>
  A text of 10001 characters, the letter \<open>a\<close> followed by 10000 spaces: it is longer than
  the maximum, it is accepted, and the endpoint answers 200.
\<close>

theorem long_padded_text_accepted:
  "length (97 # replicate 10000 32) > MAX_TEXT_LENGTH \<and>
   validate_request_data (JDict [(ascii ''text'', JStr (97 # replicate 10000 32))]) =
     Inr ([97], ascii ''af_heart'') \<and>
   status (fst (synthesize_text (ascii ''/srv'')
     (Inr (JDict [(ascii ''text'', JStr (97 # replicate 10000 32))])) (world_with fake_kokoro))) = 200"
proof -
  have s: "strip (97 # replicate 10000 32) = [97]"
    by (rule strip_padded) (simp add: isspace_def)
  have v: "validate_request_data (JDict [(ascii ''text'', JStr (97 # replicate 10000 32))]) =
             Inr ([97], ascii ''af_heart'')"
    using af_heart_allowed
    by (simp add: validate_request_data_def and_then_def s MAX_TEXT_LENGTH_def)
  show ?thesis
    by (simp add: v synthesize_text_def and_then_def)
       (simp add: MAX_TEXT_LENGTH_def uuid4_def world_with_def run_kokoro_command_def
          subprocess_run_def fake_kokoro_def kokoro_cmd_def os_path_exists_def
          output_path_of_def Let_def CLEANUP_FILES_def)
qed

subsection \<open>C4\<close>

lemma map_of_filter_key:
  "map_of (filter (\<lambda>kv. fst kv \<noteq> k) kvs) k' = (if k' = k then None else map_of kvs k')"
  by (induction kvs) auto

lemma filter_key_Nil: "filter (\<lambda>kv. fst kv \<noteq> k) kvs = [] \<Longrightarrow> k' \<noteq> k \<Longrightarrow> map_of kvs k' = None"
  by (induction kvs) (auto split: if_splits)

text \<open>
  A \<open>format\<close> that counts as false is not looked at: the validator gives what it gives on
  the same body without the field.
\<close>

lemma validate_format_falsy:
  assumes "map_of kvs (ascii ''format'') = Some x" and "\<not> truthy x"
    and "filter (\<lambda>kv. fst kv \<noteq> ascii ''format'') kvs \<noteq> []"
  shows "validate_request_data (JDict kvs) =
         validate_request_data (JDict (filter (\<lambda>kv. fst kv \<noteq> ascii ''format'') kvs))"
proof -
  from assms(1) have "kvs \<noteq> []" by auto
  with assms show ?thesis
    by (auto simp: validate_request_data_def and_then_def map_of_filter_key
          split: sum.splits option.splits)
qed

lemma validate_only_format_falsy:
  assumes "map_of kvs (ascii ''format'') = Some x"
    and "filter (\<lambda>kv. fst kv \<noteq> ascii ''format'') kvs = []"
  shows "validate_request_data (JDict kvs) = Inl (BadRequest msg_text_required)"
proof -
  from assms(1) have "kvs \<noteq> []" by auto
  moreover from assms(2) have "map_of kvs (ascii ''text'') = None"
    by (rule filter_key_Nil) simp
  ultimately show ?thesis by (rule validate_text_absent)
qed

lemma check_format_JStr:
  "field data (ascii ''format'') = Some (JStr f) \<Longrightarrow> f \<noteq> [] \<Longrightarrow>
   check_format data = (if f \<in> set wav_spellings then None else Some (BadRequest msg_format))"
  by (simp add: check_format_def py_get_field lower_wav_iff)

text \<open>
  C4 (as amended). For every request whose \<open>format\<close> is a non-empty string: validation
  succeeds only if the string is one of the eight spellings of \<open>wav\<close>; and if it is not,
  and \<open>text\<close> is absent or a string, validation fails with \<open>BadRequest\<close> and both synthesis
  endpoints answer 400. A \<open>format\<close> that counts as false is not checked: the validator
  gives the result it gives on the same body with the \<open>format\<close> field removed (and the
  empty-text error when the body holds nothing else).
\<close>

theorem format_must_spell_wav:
  assumes "field data (ascii ''format'') = Some (JStr f)" and "f \<noteq> []"
  shows "(validate_request_data data = Inr (text, voice) \<longrightarrow> f \<in> set wav_spellings) \<and>
         (f \<notin> set wav_spellings \<and>
          (field data (ascii ''text'') = None \<or> (\<exists>t. field data (ascii ''text'') = Some (JStr t))) \<longrightarrow>
            (\<exists>d. validate_request_data data = Inl (BadRequest d) \<and>
                 synthesize_text cwd (Inr data) w =
                   (error_response 400 ''Invalid request'' (str_BadRequest d), w) \<and>
                 synthesize_stream cwd (Inr data) w =
                   (error_response 400 ''Invalid request'' (str_BadRequest d), w))) \<and>
         (field data' (ascii ''format'') = Some x \<and> \<not> truthy x \<longrightarrow>
            (without_key (ascii ''format'') data' \<noteq> JDict [] \<longrightarrow>
               validate_request_data data' =
               validate_request_data (without_key (ascii ''format'') data')) \<and>
            (without_key (ascii ''format'') data' = JDict [] \<longrightarrow>
               validate_request_data data' = Inl (BadRequest msg_text_required)))"
proof (intro conjI impI)
  assume "validate_request_data data = Inr (text, voice)"
  then have "check_format data = None" by (simp add: validate_success)
  with assms show "f \<in> set wav_spellings"
    by (simp add: check_format_JStr split: if_splits)
next
  assume h: "f \<notin> set wav_spellings \<and>
    (field data (ascii ''text'') = None \<or> (\<exists>t. field data (ascii ''text'') = Some (JStr t)))"
  from assms(1) obtain kvs' where "data = JDict kvs'" using field_Some_dict by blast
  moreover from assms h have "check_format data = Some (BadRequest msg_format)"
    by (simp add: check_format_JStr)
  ultimately have "\<exists>d. validate_request_data data = Inl (BadRequest d)"
    using h by (intro text_typed_client_error) auto
  then show "\<exists>d. validate_request_data data = Inl (BadRequest d) \<and>
                 synthesize_text cwd (Inr data) w =
                   (error_response 400 ''Invalid request'' (str_BadRequest d), w) \<and>
                 synthesize_stream cwd (Inr data) w =
                   (error_response 400 ''Invalid request'' (str_BadRequest d), w)"
    by (auto simp: synthesize_text_invalid synthesize_stream_invalid)
next
  assume h: "field data' (ascii ''format'') = Some x \<and> \<not> truthy x"
    and n: "without_key (ascii ''format'') data' \<noteq> JDict []"
  from h obtain kvs where "data' = JDict kvs" and "map_of kvs (ascii ''format'') = Some x"
    using field_Some_dict by blast
  with h n show "validate_request_data data' =
                 validate_request_data (without_key (ascii ''format'') data')"
    by (simp add: validate_format_falsy)
next
  assume h: "field data' (ascii ''format'') = Some x \<and> \<not> truthy x"
    and n: "without_key (ascii ''format'') data' = JDict []"
  from h obtain kvs where "data' = JDict kvs" and "map_of kvs (ascii ''format'') = Some x"
    using field_Some_dict by blast
  with n show "validate_request_data data' = Inl (BadRequest msg_text_required)"
    by (simp add: validate_only_format_falsy)
qed

theorem format_must_spell_wav_witness:
  "validate_request_data (JDict [(ascii ''text'', JStr (ascii ''Hi'')), (ascii ''format'', JStr (ascii ''WaV''))]) =
     Inr (ascii ''Hi'', ascii ''af_heart'') \<and>
   ascii ''WaV'' \<in> set wav_spellings \<and>
   validate_request_data (JDict [(ascii ''text'', JStr (ascii ''Hi'')), (ascii ''format'', JStr (ascii ''mp3''))]) =
     Inl (BadRequest msg_format) \<and>
   status (fst (synthesize_text (ascii ''/srv'')
     (Inr (JDict [(ascii ''text'', JStr (ascii ''Hi'')), (ascii ''format'', JStr (ascii ''mp3''))]))
     (world_with fake_kokoro))) = 400 \<and>
   validate_request_data (JDict [(ascii ''text'', JStr (ascii ''Hi'')), (ascii ''format'', JBool False)]) =
     validate_request_data (JDict [(ascii ''text'', JStr (ascii ''Hi''))]) \<and>
   validate_request_data (JDict [(ascii ''text'', JStr (ascii ''Hi''))]) =
     Inr (ascii ''Hi'', ascii ''af_heart'')"
proof -
  let ?d0 = "JDict [(ascii ''text'', JStr (ascii ''Hi''))]"
  let ?d1 = "JDict [(ascii ''text'', JStr (ascii ''Hi'')), (ascii ''format'', JStr (ascii ''WaV''))]"
  let ?d2 = "JDict [(ascii ''text'', JStr (ascii ''Hi'')), (ascii ''format'', JStr (ascii ''mp3''))]"
  let ?d3 = "JDict [(ascii ''text'', JStr (ascii ''Hi'')), (ascii ''format'', JBool False)]"
  have v0: "validate_request_data ?d0 = Inr (ascii ''Hi'', ascii ''af_heart'')"
    by (simp add: validate_request_data_def and_then_def ascii_def strip_def isspace_def
          MAX_TEXT_LENGTH_def ALLOWED_VOICES_def)
  have v1: "validate_request_data ?d1 = Inr (ascii ''Hi'', ascii ''af_heart'')"
    by (simp add: validate_request_data_def and_then_def ascii_def strip_def isspace_def
          MAX_TEXT_LENGTH_def ALLOWED_VOICES_def lower_def lower_cp_def)
  have v2: "validate_request_data ?d2 = Inl (BadRequest msg_format)"
    by (simp add: validate_request_data_def and_then_def ascii_def strip_def isspace_def
          MAX_TEXT_LENGTH_def ALLOWED_VOICES_def lower_def lower_cp_def)
  have f1: "field ?d1 (ascii ''format'') = Some (JStr (ascii ''WaV''))" and n1: "ascii ''WaV'' \<noteq> []"
    and f2: "field ?d2 (ascii ''format'') = Some (JStr (ascii ''mp3''))" and n2: "ascii ''mp3'' \<noteq> []"
    and t2: "field ?d2 (ascii ''text'') = Some (JStr (ascii ''Hi''))"
    and m2: "ascii ''mp3'' \<notin> set wav_spellings"
    and f3: "field ?d3 (ascii ''format'') = Some (JBool False)"
    and w3: "without_key (ascii ''format'') ?d3 = ?d0"
    by (simp_all add: ascii_def wav_spellings_def)
  from format_must_spell_wav [OF f1 n1, of "ascii ''Hi''" "ascii ''af_heart''"] v1
  have 1: "ascii ''WaV'' \<in> set wav_spellings" by simp
  from format_must_spell_wav [OF f2 n2, of _ _ "ascii ''/srv''" "world_with fake_kokoro"] t2 m2 v2
  have 2: "synthesize_text (ascii ''/srv'') (Inr ?d2) (world_with fake_kokoro) =
          (error_response 400 ''Invalid request'' (str_BadRequest msg_format), world_with fake_kokoro)"
    by simp
  from format_must_spell_wav [OF f1 n1, of _ _ _ _ ?d3 "JBool False"] f3 w3
  have 3: "validate_request_data ?d3 = validate_request_data ?d0" by simp
  from 1 2 3 v0 v1 v2 show ?thesis by (simp add: error_response_def)
qed

text \<open>
  A \<open>format\<close> that is the empty string is present and is no spelling of \<open>wav\<close>, and the
  request is accepted. A \<open>format\<close> that is the number 5, or a \<open>text\<close> that is the number 5
  beside the format \<open>mp3\<close>, ends in \<open>AttributeError\<close>, not in \<open>BadRequest\<close>.
\<close>

theorem empty_format_accepted:
  "validate_request_data (JDict [(ascii ''text'', JStr (ascii ''Hi'')), (ascii ''format'', JStr [])]) =
     Inr (ascii ''Hi'', ascii ''af_heart'') \<and>
   [] \<notin> set wav_spellings \<and>
   validate_request_data (JDict [(ascii ''text'', JStr (ascii ''Hi'')), (ascii ''format'', JInt 5)]) =
     Inl AttributeError \<and>
   validate_request_data (JDict [(ascii ''text'', JInt 5), (ascii ''format'', JStr (ascii ''mp3''))]) =
     Inl AttributeError"
  by (simp add: validate_request_data_def and_then_def ascii_def strip_def isspace_def
        MAX_TEXT_LENGTH_def ALLOWED_VOICES_def wav_spellings_def)

subsection \<open>C5\<close>

lemma validate_default_voice:
  assumes "field data (ascii ''voice'') = None" and "validate_request_data data = Inr (text, v)"
  shows "v = ascii ''af_heart''"
proof -
  from assms(2) have t: "truthy data" and c: "chosen_voice data = Inr v"
    by (simp_all add: validate_success)
  from t assms(2) obtain kvs where "data = JDict kvs"
    using validate_not_dict [of data] by auto
  with assms(1) c show ?thesis
    by (auto simp: chosen_voice_def and_then_def split: if_splits)
qed

lemma check_voice_invalid:
  "field data (ascii ''voice'') = Some x \<Longrightarrow> allowed_voice x = None \<Longrightarrow>
   chosen_voice data = Inl (BadRequest msg_invalid_voice)"
  by (simp add: chosen_voice_def and_then_def py_get_field)

text \<open>
  What the voice path does. When \<open>voice\<close> is omitted, a validated request carries the
  voice \<open>af_heart\<close>. When a \<open>voice\<close> is supplied that is not in the allow-list, validation
  never succeeds; and if moreover \<open>text\<close> is absent or a string, validation fails with
  \<open>BadRequest\<close> and both synthesis endpoints answer 400 and leave the world as it was.
\<close>

lemma voice_default_and_allow_list:
  "(field data (ascii ''voice'') = None \<and> validate_request_data data = Inr (text, v) \<longrightarrow>
      v = ascii ''af_heart'') \<and>
   (field data (ascii ''voice'') = Some x \<and> allowed_voice x = None \<longrightarrow>
      validate_request_data data \<noteq> Inr (text, v)) \<and>
   (field data (ascii ''voice'') = Some x \<and> allowed_voice x = None \<and>
    (field data (ascii ''text'') = None \<or> (\<exists>t. field data (ascii ''text'') = Some (JStr t))) \<longrightarrow>
      (\<exists>d. validate_request_data data = Inl (BadRequest d) \<and>
           synthesize_text cwd (Inr data) w =
             (error_response 400 ''Invalid request'' (str_BadRequest d), w) \<and>
           synthesize_stream cwd (Inr data) w =
             (error_response 400 ''Invalid request'' (str_BadRequest d), w)))"
proof (intro conjI impI)
  assume "field data (ascii ''voice'') = None \<and> validate_request_data data = Inr (text, v)"
  then show "v = ascii ''af_heart''" using validate_default_voice by blast
next
  assume h: "field data (ascii ''voice'') = Some x \<and> allowed_voice x = None"
  show "validate_request_data data \<noteq> Inr (text, v)"
  proof
    assume "validate_request_data data = Inr (text, v)"
    then have "chosen_voice data = Inr v" by (simp add: validate_success)
    with h show False by (simp add: check_voice_invalid)
  qed
next
  assume h: "field data (ascii ''voice'') = Some x \<and> allowed_voice x = None \<and>
    (field data (ascii ''text'') = None \<or> (\<exists>t. field data (ascii ''text'') = Some (JStr t)))"
  then obtain kvs where "data = JDict kvs" using field_Some_dict by blast
  moreover from h have "check_voice data = Some (BadRequest msg_invalid_voice)"
    by (simp add: check_voice_def check_voice_invalid)
  ultimately have "\<exists>d. validate_request_data data = Inl (BadRequest d)"
    using h by (intro text_typed_client_error) auto
  then show "\<exists>d. validate_request_data data = Inl (BadRequest d) \<and>
           synthesize_text cwd (Inr data) w =
             (error_response 400 ''Invalid request'' (str_BadRequest d), w) \<and>
           synthesize_stream cwd (Inr data) w =
             (error_response 400 ''Invalid request'' (str_BadRequest d), w)"
    by (auto simp: synthesize_text_invalid synthesize_stream_invalid)
qed

lemma voice_default_and_allow_list_examples:
  "validate_request_data (JDict [(ascii ''text'', JStr (ascii ''Hi''))]) =
     Inr (ascii ''Hi'', ascii ''af_heart'') \<and>
   validate_request_data (JDict [(ascii ''text'', JStr (ascii ''Hi'')), (ascii ''voice'', JStr (ascii ''xx_invalid''))]) =
     Inl (BadRequest msg_invalid_voice) \<and>
   status (fst (synthesize_text (ascii ''/srv'')
     (Inr (JDict [(ascii ''text'', JStr (ascii ''Hi'')), (ascii ''voice'', JStr (ascii ''xx_invalid''))]))
     (world_with fake_kokoro))) = 400"
proof -
  let ?d1 = "JDict [(ascii ''text'', JStr (ascii ''Hi''))]"
  let ?d2 = "JDict [(ascii ''text'', JStr (ascii ''Hi'')), (ascii ''voice'', JStr (ascii ''xx_invalid''))]"
  have "\<exists>text v. validate_request_data ?d1 = Inr (text, v) \<and> text = ascii ''Hi''"
    by (simp add: validate_request_data_def and_then_def ascii_def strip_def isspace_def
          MAX_TEXT_LENGTH_def ALLOWED_VOICES_def)
  then obtain v where v1: "validate_request_data ?d1 = Inr (ascii ''Hi'', v)" by auto
  have f1: "field ?d1 (ascii ''voice'') = None" by (simp add: ascii_def)
  from voice_default_and_allow_list [of ?d1 "ascii ''Hi''" v] f1 v1
  have 1: "validate_request_data ?d1 = Inr (ascii ''Hi'', ascii ''af_heart'')" by simp
  have v2: "validate_request_data ?d2 = Inl (BadRequest msg_invalid_voice)"
    by (simp add: validate_request_data_def and_then_def ascii_def strip_def isspace_def
          MAX_TEXT_LENGTH_def ALLOWED_VOICES_def)
  have f2: "field ?d2 (ascii ''voice'') = Some (JStr (ascii ''xx_invalid''))"
    and a2: "allowed_voice (JStr (ascii ''xx_invalid'')) = None"
    and t2: "field ?d2 (ascii ''text'') = Some (JStr (ascii ''Hi''))"
    by (simp_all add: ascii_def ALLOWED_VOICES_def)
  from voice_default_and_allow_list [of ?d2 _ _ "JStr (ascii ''xx_invalid'')" "ascii ''/srv''"
      "world_with fake_kokoro"] f2 a2 t2 v2
  have "synthesize_text (ascii ''/srv'') (Inr ?d2) (world_with fake_kokoro) =
          (error_response 400 ''Invalid request'' (str_BadRequest msg_invalid_voice), world_with fake_kokoro)"
    by simp
  with 1 v2 show ?thesis by (simp add: error_response_def)
qed

text \<open>
  C5. The claim: for every request, an omitted voice is replaced by \<open>af_heart\<close>, and a
  supplied voice that is not in the allow-list makes validation fail with the client
  error, answered with 400. The code does not do the second on the request that supplies
  the voice \<open>xx_invalid\<close> and the number 5 as \<open>text\<close>: the validator raises
  \<open>AttributeError\<close> on the text before it looks at the voice, and the endpoint answers
  500.
\<close>

theorem invalid_voice_with_untyped_text:
  "field (JDict [(ascii ''text'', JInt 5), (ascii ''voice'', JStr (ascii ''xx_invalid''))]) (ascii ''voice'') =
     Some (JStr (ascii ''xx_invalid'')) \<and>
   allowed_voice (JStr (ascii ''xx_invalid'')) = None \<and>
   validate_request_data (JDict [(ascii ''text'', JInt 5), (ascii ''voice'', JStr (ascii ''xx_invalid''))]) =
     Inl AttributeError \<and>
   status (fst (synthesize_text (ascii ''/srv'')
     (Inr (JDict [(ascii ''text'', JInt 5), (ascii ''voice'', JStr (ascii ''xx_invalid''))]))
     (world_with fake_kokoro))) = 500"
  by (simp add: synthesize_text_def validate_request_data_def and_then_def ascii_def
        error_response_def ALLOWED_VOICES_def)

section \<open>The synthesis endpoints: properties\<close>

lemma uuid4_world: "uuid4 w = (uuid_src w (uuid_ctr w), w\<lparr>uuid_ctr := Suc (uuid_ctr w)\<rparr>)"
  by (simp add: uuid4_def)

text \<open>
  A validated request: what either endpoint leaves behind. One identifier is drawn and
  one command is run, with the path made from that identifier and the timeout 60. The
  download endpoint leaves the files as the process left them; the streaming endpoint
  removes the artifact once it has read it.
\<close>

lemma synthesize_text_valid_world:
  assumes "validate_request_data data = Inr (text, voice)"
  shows "calls (snd (synthesize_text cwd (Inr data) w)) =
           calls w @ [(kokoro_cmd text voice (output_path_of cwd (uuid_src w (uuid_ctr w))), 60)]"
    and "uuid_ctr (snd (synthesize_text cwd (Inr data) w)) = Suc (uuid_ctr w)"
    and "uuid_src (snd (synthesize_text cwd (Inr data) w)) = uuid_src w"
    and "exec (snd (synthesize_text cwd (Inr data) w)) = exec w"
    and "files (snd (synthesize_text cwd (Inr data) w)) =
           snd (exec w (kokoro_cmd text voice (output_path_of cwd (uuid_src w (uuid_ctr w)))) 60
                  (files w))"
proof -
  let ?p = "output_path_of cwd (uuid_src w (uuid_ctr w))"
  let ?w1 = "w\<lparr>uuid_ctr := Suc (uuid_ctr w)\<rparr>"
  obtain r w2 where r: "run_kokoro_command text voice ?p ?w1 = (r, w2)"
    by (cases "run_kokoro_command text voice ?p ?w1")
  from run_kokoro_command_world [of "text" voice ?p ?w1] r
  have w2: "w2 = ?w1\<lparr>files := snd (exec w (kokoro_cmd text voice ?p) 60 (files w)),
                     calls := calls w @ [(kokoro_cmd text voice ?p, 60)]\<rparr>"
    by simp
  have s: "snd (synthesize_text cwd (Inr data) w) = w2"
    using assms r
    by (auto simp: synthesize_text_def and_then_def uuid4_world Let_def
             split: sum.splits option.splits)
  show "calls (snd (synthesize_text cwd (Inr data) w)) =
           calls w @ [(kokoro_cmd text voice (output_path_of cwd (uuid_src w (uuid_ctr w))), 60)]"
    and "uuid_ctr (snd (synthesize_text cwd (Inr data) w)) = Suc (uuid_ctr w)"
    and "uuid_src (snd (synthesize_text cwd (Inr data) w)) = uuid_src w"
    and "exec (snd (synthesize_text cwd (Inr data) w)) = exec w"
    and "files (snd (synthesize_text cwd (Inr data) w)) =
           snd (exec w (kokoro_cmd text voice (output_path_of cwd (uuid_src w (uuid_ctr w)))) 60
                  (files w))"
    by (simp_all add: s w2)
qed

lemma synthesize_stream_valid_world:
  assumes "validate_request_data data = Inr (text, voice)"
  shows "calls (snd (synthesize_stream cwd (Inr data) w)) =
           calls w @ [(kokoro_cmd text voice (output_path_of cwd (uuid_src w (uuid_ctr w))), 60)]"
    and "uuid_ctr (snd (synthesize_stream cwd (Inr data) w)) = Suc (uuid_ctr w)"
    and "uuid_src (snd (synthesize_stream cwd (Inr data) w)) = uuid_src w"
    and "exec (snd (synthesize_stream cwd (Inr data) w)) = exec w"
proof -
  let ?p = "output_path_of cwd (uuid_src w (uuid_ctr w))"
  let ?w1 = "w\<lparr>uuid_ctr := Suc (uuid_ctr w)\<rparr>"
  obtain r w2 where r: "run_kokoro_command text voice ?p ?w1 = (r, w2)"
    by (cases "run_kokoro_command text voice ?p ?w1")
  from run_kokoro_command_world [of "text" voice ?p ?w1] r
  have w2: "w2 = ?w1\<lparr>files := snd (exec w (kokoro_cmd text voice ?p) 60 (files w)),
                     calls := calls w @ [(kokoro_cmd text voice ?p, 60)]\<rparr>"
    by simp
  have "snd (synthesize_stream cwd (Inr data) w) = w2 \<or>
        snd (synthesize_stream cwd (Inr data) w) = os_unlink ?p w2"
    using assms r
    by (auto simp: synthesize_stream_def and_then_def uuid4_world Let_def
             split: sum.splits option.splits)
  then show "calls (snd (synthesize_stream cwd (Inr data) w)) =
           calls w @ [(kokoro_cmd text voice (output_path_of cwd (uuid_src w (uuid_ctr w))), 60)]"
    and "uuid_ctr (snd (synthesize_stream cwd (Inr data) w)) = Suc (uuid_ctr w)"
    and "uuid_src (snd (synthesize_stream cwd (Inr data) w)) = uuid_src w"
    and "exec (snd (synthesize_stream cwd (Inr data) w)) = exec w"
    by (auto simp: w2 os_unlink_def)
qed



text \<open>
  A validated request: the answer of either endpoint, read off what the tool did. The
  audio is returned when the process exited with 0, its output decoded and the file is
  there; in every other case the answer is the synthesis failure, 500.
\<close>

lemma synthesize_text_valid_response:
  assumes "validate_request_data data = Inr (text, voice)"
  shows "fst (synthesize_text cwd (Inr data) w) =
     (if fst (exec w (kokoro_cmd text voice (output_path_of cwd (uuid_src w (uuid_ctr w)))) 60
                (files w)) = Exited 0 True
      then (case snd (exec w (kokoro_cmd text voice (output_path_of cwd (uuid_src w (uuid_ctr w))))
                        60 (files w)) (output_path_of cwd (uuid_src w (uuid_ctr w))) of
              None \<Rightarrow> synthesis_failed
            | Some audio \<Rightarrow>
                \<lparr>status = 200,
                 payload = Attachment audio (ascii ''tts_output.wav'') (ascii ''audio/wav'')\<rparr>)
      else synthesis_failed)"
proof -
  let ?p = "output_path_of cwd (uuid_src w (uuid_ctr w))"
  let ?w1 = "w\<lparr>uuid_ctr := Suc (uuid_ctr w)\<rparr>"
  obtain r w2 where r: "run_kokoro_command text voice ?p ?w1 = (r, w2)"
    by (cases "run_kokoro_command text voice ?p ?w1")
  from run_kokoro_command_world [of "text" voice ?p ?w1] r
  have w2: "files w2 = snd (exec w (kokoro_cmd text voice ?p) 60 (files w))"
    by simp
  from run_kokoro_command_result [of "text" voice ?p ?w1] r
  have res: "r = Inr (fst (exec w (kokoro_cmd text voice ?p) 60 (files w)) = Exited 0 True \<and>
                      snd (exec w (kokoro_cmd text voice ?p) 60 (files w)) ?p \<noteq> None)"
    by simp
  show ?thesis
    using assms r w2
    by (auto simp: synthesize_text_def and_then_def uuid4_world Let_def res
             split: option.splits)
qed

lemma synthesize_stream_valid_response:
  assumes "validate_request_data data = Inr (text, voice)"
  shows \<open>fst (synthesize_stream cwd (Inr data) w) =
     (if fst (exec w (kokoro_cmd text voice (output_path_of cwd (uuid_src w (uuid_ctr w)))) 60
                (files w)) = Exited 0 True
      then (case snd (exec w (kokoro_cmd text voice (output_path_of cwd (uuid_src w (uuid_ctr w))))
                        60 (files w)) (output_path_of cwd (uuid_src w (uuid_ctr w))) of
              None \<Rightarrow> synthesis_failed
            | Some audio \<Rightarrow>
                \<lparr>status = 200,
                 payload = Inline audio
                   [(ascii ''Content-Type'', ascii ''audio/wav''),
                    (ascii ''Content-Disposition'', ascii ''inline; filename="tts_output.wav"'')]\<rparr>)
      else synthesis_failed)\<close>
proof -
  let ?p = "output_path_of cwd (uuid_src w (uuid_ctr w))"
  let ?w1 = "w\<lparr>uuid_ctr := Suc (uuid_ctr w)\<rparr>"
  obtain r w2 where r: "run_kokoro_command text voice ?p ?w1 = (r, w2)"
    by (cases "run_kokoro_command text voice ?p ?w1")
  from run_kokoro_command_world [of "text" voice ?p ?w1] r
  have w2: "files w2 = snd (exec w (kokoro_cmd text voice ?p) 60 (files w))"
    by simp
  from run_kokoro_command_result [of "text" voice ?p ?w1] r
  have res: "r = Inr (fst (exec w (kokoro_cmd text voice ?p) 60 (files w)) = Exited 0 True \<and>
                      snd (exec w (kokoro_cmd text voice ?p) 60 (files w)) ?p \<noteq> None)"
    by simp
  show ?thesis
    using assms r w2
    by (auto simp: synthesize_stream_def and_then_def uuid4_world Let_def res
             split: option.splits)
qed

lemma status_synthesis_failed: "status synthesis_failed = 500"
  by (simp add: synthesis_failed_def error_response_def)

subsection \<open>C6\<close>

text \<open>
  C6. For every validated request, either synthesis endpoint runs the tool exactly once:
  the record of \<open>subprocess.run\<close> calls grows by one entry, the command line of the
  request with the timeout 60, and the files are what that one run of the tool left (the
  download endpoint leaves them so). The invoker reports what the tool did: \<open>True\<close>
  exactly when the process exited with 0, its output decoded and the file is there. The
  endpoints answer accordingly: 200 with the audio the tool wrote in that case, and the
  synthesis failure, 500, in every other. In particular, if the process does not end
  within the timeout, the invoker returns \<open>False\<close> and both endpoints answer 500.
\<close>

theorem single_invocation_with_timeout:
  assumes "validate_request_data data = Inr (text, voice)"
  shows \<open>calls (snd (synthesize_text cwd (Inr data) w)) =
           calls w @ [(kokoro_cmd text voice (output_path_of cwd (uuid_src w (uuid_ctr w))), 60)] \<and>
         calls (snd (synthesize_stream cwd (Inr data) w)) =
           calls w @ [(kokoro_cmd text voice (output_path_of cwd (uuid_src w (uuid_ctr w))), 60)] \<and>
         files (snd (synthesize_text cwd (Inr data) w)) =
           snd (exec w (kokoro_cmd text voice (output_path_of cwd (uuid_src w (uuid_ctr w)))) 60
                  (files w)) \<and>
         run_kokoro_command text voice (output_path_of cwd (uuid_src w (uuid_ctr w)))
             (w\<lparr>uuid_ctr := Suc (uuid_ctr w)\<rparr>) =
           (Inr (fst (exec w (kokoro_cmd text voice (output_path_of cwd (uuid_src w (uuid_ctr w))))
                        60 (files w)) = Exited 0 True \<and>
                 snd (exec w (kokoro_cmd text voice (output_path_of cwd (uuid_src w (uuid_ctr w))))
                        60 (files w)) (output_path_of cwd (uuid_src w (uuid_ctr w))) \<noteq> None),
            w\<lparr>uuid_ctr := Suc (uuid_ctr w),
              files := snd (exec w (kokoro_cmd text voice
                         (output_path_of cwd (uuid_src w (uuid_ctr w)))) 60 (files w)),
              calls := calls w @
                [(kokoro_cmd text voice (output_path_of cwd (uuid_src w (uuid_ctr w))), 60)]\<rparr>) \<and>
         fst (synthesize_text cwd (Inr data) w) =
           (if fst (exec w (kokoro_cmd text voice (output_path_of cwd (uuid_src w (uuid_ctr w))))
                      60 (files w)) = Exited 0 True
            then (case snd (exec w (kokoro_cmd text voice
                              (output_path_of cwd (uuid_src w (uuid_ctr w)))) 60 (files w))
                         (output_path_of cwd (uuid_src w (uuid_ctr w))) of
                    None \<Rightarrow> synthesis_failed
                  | Some audio \<Rightarrow>
                      \<lparr>status = 200,
                       payload = Attachment audio (ascii ''tts_output.wav'') (ascii ''audio/wav'')\<rparr>)
            else synthesis_failed) \<and>
         fst (synthesize_stream cwd (Inr data) w) =
           (if fst (exec w (kokoro_cmd text voice (output_path_of cwd (uuid_src w (uuid_ctr w))))
                      60 (files w)) = Exited 0 True
            then (case snd (exec w (kokoro_cmd text voice
                              (output_path_of cwd (uuid_src w (uuid_ctr w)))) 60 (files w))
                         (output_path_of cwd (uuid_src w (uuid_ctr w))) of
                    None \<Rightarrow> synthesis_failed
                  | Some audio \<Rightarrow>
                      \<lparr>status = 200,
                       payload = Inline audio
                         [(ascii ''Content-Type'', ascii ''audio/wav''),
                          (ascii ''Content-Disposition'',
                           ascii ''inline; filename="tts_output.wav"'')]\<rparr>)
            else synthesis_failed) \<and>
         (fst (exec w (kokoro_cmd text voice (output_path_of cwd (uuid_src w (uuid_ctr w)))) 60 (files w))
            = Overran \<longrightarrow>
            fst (run_kokoro_command text voice (output_path_of cwd (uuid_src w (uuid_ctr w)))
                   (w\<lparr>uuid_ctr := Suc (uuid_ctr w)\<rparr>)) = Inr False \<and>
            fst (synthesize_text cwd (Inr data) w) = synthesis_failed \<and>
            fst (synthesize_stream cwd (Inr data) w) = synthesis_failed \<and>
            status synthesis_failed = 500)\<close>
proof -
  let ?p = "output_path_of cwd (uuid_src w (uuid_ctr w))"
  let ?w1 = "w\<lparr>uuid_ctr := Suc (uuid_ctr w)\<rparr>"
  have run: "run_kokoro_command text voice ?p ?w1 =
      (Inr (fst (exec w (kokoro_cmd text voice ?p) 60 (files w)) = Exited 0 True \<and>
            snd (exec w (kokoro_cmd text voice ?p) 60 (files w)) ?p \<noteq> None),
       w\<lparr>uuid_ctr := Suc (uuid_ctr w),
         files := snd (exec w (kokoro_cmd text voice ?p) 60 (files w)),
         calls := calls w @ [(kokoro_cmd text voice ?p, 60)]\<rparr>)"
    by (rule prod_eqI)
       (simp_all add: run_kokoro_command_result run_kokoro_command_world)
  note rt = synthesize_text_valid_response [OF assms, of cwd w]
  note rs = synthesize_stream_valid_response [OF assms, of cwd w]
  have t: "fst (exec w (kokoro_cmd text voice ?p) 60 (files w)) = Overran \<longrightarrow>
            fst (run_kokoro_command text voice ?p ?w1) = Inr False \<and>
            fst (synthesize_text cwd (Inr data) w) = synthesis_failed \<and>
            fst (synthesize_stream cwd (Inr data) w) = synthesis_failed \<and>
            status synthesis_failed = 500"
    by (simp add: rt rs run status_synthesis_failed)
  from run rt rs t show ?thesis
    by (simp only: synthesize_text_valid_world [OF assms]
          synthesize_stream_valid_world [OF assms] simp_thms)
qed

theorem single_invocation_with_timeout_witness:
  "validate_request_data (JDict [(ascii ''text'', JStr (ascii ''Hi''))]) =
     Inr (ascii ''Hi'', ascii ''af_heart'') \<and>
   calls (snd (synthesize_text (ascii ''/srv'') (Inr (JDict [(ascii ''text'', JStr (ascii ''Hi''))]))
     (world_with slow_kokoro))) =
     [([ascii ''kokoro'', ascii ''--voice'', ascii ''af_heart'', ascii ''--text'', ascii ''Hi'',
        ascii ''-o'', ascii ''/srv/output_temp/kokoro_tts_a.wav''], 60)] \<and>
   status (fst (synthesize_text (ascii ''/srv'') (Inr (JDict [(ascii ''text'', JStr (ascii ''Hi''))]))
     (world_with slow_kokoro))) = 500 \<and>
   status (fst (synthesize_stream (ascii ''/srv'') (Inr (JDict [(ascii ''text'', JStr (ascii ''Hi''))]))
     (world_with slow_kokoro))) = 500 \<and>
   fst (synthesize_text (ascii ''/srv'') (Inr (JDict [(ascii ''text'', JStr (ascii ''Hi''))]))
     (world_with fake_kokoro)) =
     \<lparr>status = 200,
      payload = Attachment [82, 73, 70, 70] (ascii ''tts_output.wav'') (ascii ''audio/wav'')\<rparr> \<and>
   files (snd (synthesize_text (ascii ''/srv'') (Inr (JDict [(ascii ''text'', JStr (ascii ''Hi''))]))
     (world_with fake_kokoro))) (ascii ''/srv/output_temp/kokoro_tts_a.wav'') =
     Some [82, 73, 70, 70]"
proof -
  let ?d = "JDict [(ascii ''text'', JStr (ascii ''Hi''))]"
  have v: "validate_request_data ?d = Inr (ascii ''Hi'', ascii ''af_heart'')"
    by (simp add: validate_request_data_def and_then_def ascii_def strip_def isspace_def
          MAX_TEXT_LENGTH_def ALLOWED_VOICES_def)
  have p: "output_path_of (ascii ''/srv'') [97] = ascii ''/srv/output_temp/kokoro_tts_a.wav''"
    by (simp add: output_path_of_def TEMP_DIR_def os_path_join_def ascii_def)
  note slow = single_invocation_with_timeout [OF v, of "ascii ''/srv''" "world_with slow_kokoro"]
  note fake = single_invocation_with_timeout [OF v, of "ascii ''/srv''" "world_with fake_kokoro"]
  have e: "exec (world_with slow_kokoro) = slow_kokoro" "exec (world_with fake_kokoro) = fake_kokoro"
    and w: "\<And>t. files (world_with t) = Map.empty" "\<And>t. calls (world_with t) = []"
      "\<And>t. uuid_ctr (world_with t) = 0" "\<And>t. uuid_src (world_with t) = (\<lambda>n. [97 + n])"
    by (simp_all add: world_with_def)
  from slow have s1:
    "calls (snd (synthesize_text (ascii ''/srv'') (Inr ?d) (world_with slow_kokoro))) =
       [(kokoro_cmd (ascii ''Hi'') (ascii ''af_heart'') (ascii ''/srv/output_temp/kokoro_tts_a.wav''), 60)]"
    and s2: "fst (synthesize_text (ascii ''/srv'') (Inr ?d) (world_with slow_kokoro)) = synthesis_failed"
    and s3: "fst (synthesize_stream (ascii ''/srv'') (Inr ?d) (world_with slow_kokoro)) = synthesis_failed"
    by (simp_all add: e w p slow_kokoro_def)
  from fake have f1:
    "fst (synthesize_text (ascii ''/srv'') (Inr ?d) (world_with fake_kokoro)) =
       \<lparr>status = 200,
        payload = Attachment [82, 73, 70, 70] (ascii ''tts_output.wav'') (ascii ''audio/wav'')\<rparr>"
    and f2: "files (snd (synthesize_text (ascii ''/srv'') (Inr ?d) (world_with fake_kokoro)))
               (ascii ''/srv/output_temp/kokoro_tts_a.wav'') = Some [82, 73, 70, 70]"
    by (simp_all add: e w p fake_kokoro_def kokoro_cmd_def)
  from v s1 s2 s3 f1 f2 show ?thesis
    by (simp add: kokoro_cmd_def status_synthesis_failed)
qed

section \<open>Request validation: the stripped text and the order of the checks\<close>

subsection \<open>C9\<close>







subsection \<open>C10\<close>

text \<open>
  What the checks say on an object: the text checks look at the stripped text (an absent
  text counts as empty), the voice check at the supplied voice or at the default, the
  format check at a format that is a non-empty string.
\<close>

lemma check_text_present_JStr:
  "field data (ascii ''text'') = Some (JStr t) \<Longrightarrow>
   check_text_present data = (if strip t = [] then Some (BadRequest msg_text_required) else None)"
  by (simp add: check_text_present_def stripped_text_JStr)

lemma check_text_present_absent:
  "map_of kvs (ascii ''text'') = None \<Longrightarrow>
   check_text_present (JDict kvs) = Some (BadRequest msg_text_required)"
  by (simp add: check_text_present_def stripped_text_absent)

lemma check_text_length_JStr:
  "field data (ascii ''text'') = Some (JStr t) \<Longrightarrow>
   check_text_length data =
     (if length (strip t) > MAX_TEXT_LENGTH then Some (BadRequest msg_text_too_long) else None)"
  by (simp add: check_text_length_def stripped_text_JStr)

lemma check_voice_JDict:
  "check_voice (JDict kvs) =
     (case map_of kvs (ascii ''voice'') of
        None \<Rightarrow> None
      | Some x \<Rightarrow> if allowed_voice x = None then Some (BadRequest msg_invalid_voice) else None)"
proof -
  have "ascii ''af_heart'' \<in> set ALLOWED_VOICES"
    using af_heart_allowed by (simp split: if_splits)
  then show ?thesis
    by (auto simp: check_voice_def chosen_voice_def and_then_def split: option.splits)
qed

text \<open>
  C10. The validator applies the checks in the order body, empty text, text length,
  voice, format: its result is the exception of the first check in that order that fails,
  whatever the later ones would say, and the stripped text with the chosen voice when
  none fails. A check fails with its \<open>BadRequest\<close>, or with the \<open>AttributeError\<close> of an
  attribute it reads.
\<close>

theorem checks_applied_in_order:
  "(case first_failure checks_in_order data of
      Some e \<Rightarrow> validate_request_data data = Inl e
    | None \<Rightarrow>
        (\<exists>text voice. stripped_text data = Inr text \<and> chosen_voice data = Inr voice \<and>
           validate_request_data data = Inr (text, voice)))"
  by (auto simp: validate_by_checks checks_in_order_def validated_pair_def and_then_def
        check_text_present_def check_voice_def
      split: option.splits sum.splits if_splits)

theorem checks_applied_in_order_witness:
  "check_text_present (JDict [(ascii ''text'', JStr []), (ascii ''voice'', JStr (ascii ''xx_invalid''))]) =
     Some (BadRequest msg_text_required) \<and>
   check_voice (JDict [(ascii ''text'', JStr []), (ascii ''voice'', JStr (ascii ''xx_invalid''))]) =
     Some (BadRequest msg_invalid_voice) \<and>
   validate_request_data (JDict [(ascii ''text'', JStr []), (ascii ''voice'', JStr (ascii ''xx_invalid''))]) =
     Inl (BadRequest msg_text_required)"
proof -
  let ?d = "JDict [(ascii ''text'', JStr []), (ascii ''voice'', JStr (ascii ''xx_invalid''))]"
  have b: "check_body ?d = None" by (simp add: check_body_def)
  have t: "check_text_present ?d = Some (BadRequest msg_text_required)"
    by (simp add: check_text_present_def stripped_text_def and_then_def)
  have v: "check_voice ?d = Some (BadRequest msg_invalid_voice)"
    by (simp add: check_voice_def chosen_voice_def and_then_def ascii_def ALLOWED_VOICES_def)
  from b t have "first_failure checks_in_order ?d = Some (BadRequest msg_text_required)"
    by (simp add: checks_in_order_def)
  with checks_applied_in_order [of ?d] t v show ?thesis by simp
qed

section \<open>Artifact paths over a run of the server\<close>

subsection \<open>C7\<close>

lemma output_path_of_inj: "output_path_of cwd a = output_path_of cwd b \<longleftrightarrow> a = b"
  by (simp add: output_path_of_def os_path_join_def ascii_def)

lemma last_kokoro_cmd [simp]: "last (kokoro_cmd text voice p) = p"
  by (simp add: kokoro_cmd_def)

lemma upt_join: "i \<le> j \<Longrightarrow> j \<le> k \<Longrightarrow> [i..<j] @ [j..<k] = [i..<k]"
  by (metis le_Suc_ex upt_add_eq_append)

text \<open>
  One request: the paths used grow by the paths made from the identifiers drawn while it
  is served (none or one), and the source of identifiers is not touched.
\<close>

lemma synthesize_step:
  assumes "h = synthesize_text \<or> h = synthesize_stream"
  shows "artifact_paths (snd (h cwd body w)) =
           artifact_paths w @
           map (\<lambda>i. output_path_of cwd (uuid_src w i)) [uuid_ctr w ..< uuid_ctr (snd (h cwd body w))] \<and>
         uuid_src (snd (h cwd body w)) = uuid_src w \<and>
         uuid_ctr w \<le> uuid_ctr (snd (h cwd body w))"
proof (cases "and_then body validate_request_data")
  case (Inl e)
  with assms have "snd (h cwd body w) = w"
    by (auto simp: synthesize_text_def synthesize_stream_def)
  then show ?thesis by simp
next
  case (Inr tv)
  obtain tx voice where tv: "tv = (tx, voice)" by (cases tv)
  from Inr obtain data where d: "body = Inr data"
    by (cases body) (simp_all add: and_then_def)
  with Inr tv have v: "validate_request_data data = Inr (tx, voice)"
    by (simp add: and_then_def)
  from assms show ?thesis
    by (auto simp: d artifact_paths_def
          synthesize_text_valid_world [OF v] synthesize_stream_valid_world [OF v])
qed

lemma dispatch_step:
  "artifact_paths (snd (dispatch cwd rq w)) =
     artifact_paths w @
     map (\<lambda>i. output_path_of cwd (uuid_src w i)) [uuid_ctr w ..< uuid_ctr (snd (dispatch cwd rq w))] \<and>
   uuid_src (snd (dispatch cwd rq w)) = uuid_src w \<and>
   uuid_ctr w \<le> uuid_ctr (snd (dispatch cwd rq w))"
proof (cases rq)
  case GET_health
  then show ?thesis by (simp add: health_check_def)
next
  case GET_voices
  then show ?thesis by (simp add: get_voices_def)
next
  case (POST_synthesize body)
  then show ?thesis using synthesize_step [of synthesize_text cwd body w] by simp
next
  case (POST_synthesize_stream body)
  then show ?thesis using synthesize_step [of synthesize_stream cwd body w] by simp
qed

lemma serve_snd_Cons:
  "snd (serve cwd (rq # rqs) w) = snd (serve cwd rqs (snd (dispatch cwd rq w)))"
  by (simp add: Let_def split: prod.splits)

lemma serve_paths:
  "artifact_paths (snd (serve cwd rqs w)) =
     artifact_paths w @
     map (\<lambda>i. output_path_of cwd (uuid_src w i)) [uuid_ctr w ..< uuid_ctr (snd (serve cwd rqs w))] \<and>
   uuid_src (snd (serve cwd rqs w)) = uuid_src w \<and>
   uuid_ctr w \<le> uuid_ctr (snd (serve cwd rqs w))"
proof (induction rqs arbitrary: w)
  case Nil
  then show ?case by simp
next
  case (Cons rq rqs)
  let ?w1 = "snd (dispatch cwd rq w)"
  let ?w2 = "snd (serve cwd rqs ?w1)"
  have s: "snd (serve cwd (rq # rqs) w) = ?w2"
    by (rule serve_snd_Cons)
  note d = dispatch_step [of cwd rq w]
  note r = Cons.IH [of ?w1]
  from d r have "artifact_paths ?w2 =
      artifact_paths w @
      map (\<lambda>i. output_path_of cwd (uuid_src w i)) ([uuid_ctr w ..< uuid_ctr ?w1] @ [uuid_ctr ?w1 ..< uuid_ctr ?w2])"
    by simp
  moreover from d r have "[uuid_ctr w ..< uuid_ctr ?w1] @ [uuid_ctr ?w1 ..< uuid_ctr ?w2] =
      [uuid_ctr w ..< uuid_ctr ?w2]"
    by (intro upt_join) simp_all
  ultimately show ?case unfolding s using d r by simp
qed

text \<open>
  C7. In every run of the server over a list of requests to any of its endpoints, the
  artifact paths used are, in order, the paths made from the identifiers \<open>uuid4\<close> returned
  during the run, one per validated synthesis request. As long as \<open>uuid4\<close> never returns
  the same identifier twice, these paths are pairwise distinct: no path is used by two
  requests.
\<close>

theorem artifact_paths_never_reused:
  assumes "inj (uuid_src w)"
  shows "artifact_paths (snd (serve cwd rqs w)) =
           artifact_paths w @
           map (\<lambda>i. output_path_of cwd (uuid_src w i)) [uuid_ctr w ..< uuid_ctr (snd (serve cwd rqs w))] \<and>
         distinct (map (\<lambda>i. output_path_of cwd (uuid_src w i))
           [uuid_ctr w ..< uuid_ctr (snd (serve cwd rqs w))]) \<and>
         (calls w = [] \<longrightarrow> distinct (artifact_paths (snd (serve cwd rqs w))))"
proof -
  let ?new = "map (\<lambda>i. output_path_of cwd (uuid_src w i)) [uuid_ctr w ..< uuid_ctr (snd (serve cwd rqs w))]"
  have p: "artifact_paths (snd (serve cwd rqs w)) = artifact_paths w @ ?new"
    using serve_paths [of cwd rqs w] by simp
  from assms have "inj (\<lambda>i. output_path_of cwd (uuid_src w i))"
    by (auto simp: inj_def output_path_of_inj)
  then have d: "distinct ?new"
    by (simp add: distinct_map inj_on_def inj_def)
  from p d show ?thesis by (simp add: artifact_paths_def)
qed

theorem artifact_paths_never_reused_witness:
  "inj (uuid_src (world_with fake_kokoro)) \<and>
   artifact_paths (snd (serve (ascii ''/srv'')
     [POST_synthesize (Inr (JDict [(ascii ''text'', JStr (ascii ''Hi''))])),
      GET_voices,
      POST_synthesize_stream (Inr (JDict [(ascii ''text'', JStr (ascii ''Hi''))]))]
     (world_with fake_kokoro))) =
     [ascii ''/srv/output_temp/kokoro_tts_a.wav'', ascii ''/srv/output_temp/kokoro_tts_b.wav''] \<and>
   distinct (artifact_paths (snd (serve (ascii ''/srv'')
     [POST_synthesize (Inr (JDict [(ascii ''text'', JStr (ascii ''Hi''))])),
      GET_voices,
      POST_synthesize_stream (Inr (JDict [(ascii ''text'', JStr (ascii ''Hi''))]))]
     (world_with fake_kokoro))))"
proof -
  let ?d = "JDict [(ascii ''text'', JStr (ascii ''Hi''))]"
  let ?rqs = "[POST_synthesize (Inr ?d), GET_voices, POST_synthesize_stream (Inr ?d)]"
  let ?w = "world_with fake_kokoro"
  have i: "inj (uuid_src ?w)" by (simp add: world_with_def inj_def)
  have c: "calls ?w = []" and a: "artifact_paths ?w = []" and u: "uuid_ctr ?w = 0"
    and s: "uuid_src ?w = (\<lambda>n. [97 + n])"
    by (simp_all add: world_with_def artifact_paths_def)
  have v: "validate_request_data ?d = Inr (ascii ''Hi'', ascii ''af_heart'')"
    by (simp add: validate_request_data_def and_then_def ascii_def strip_def isspace_def
          MAX_TEXT_LENGTH_def ALLOWED_VOICES_def)
  have n: "uuid_ctr (snd (serve (ascii ''/srv'') ?rqs ?w)) = 2"
    by (simp add: serve_snd_Cons get_voices_def u
          synthesize_text_valid_world [OF v] synthesize_stream_valid_world [OF v]
        del: serve.simps(2))
  have p: "output_path_of (ascii ''/srv'') [97] = ascii ''/srv/output_temp/kokoro_tts_a.wav''"
    "output_path_of (ascii ''/srv'') [98] = ascii ''/srv/output_temp/kokoro_tts_b.wav''"
    by (simp_all add: output_path_of_def TEMP_DIR_def os_path_join_def ascii_def)
  have upt: "[0..<2] = [0, Suc 0]" by (simp add: upt_rec)
  from artifact_paths_never_reused [OF i, of "ascii ''/srv''" ?rqs] c
  show ?thesis
    by (simp add: a u s n p upt inj_def del: serve.simps)
qed

end
